theory Spec2Isabelle
  imports Main
begin

section \<open>Unstructured documents\<close>

text \<open>
  The program reads and writes Kubernetes objects as untyped trees
  (\<^verbatim>\<open>map[string]any\<close>, \<^verbatim>\<open>[]any\<close>, strings, booleans, numbers and \<^verbatim>\<open>nil\<close>).
  Numbers are never inspected by the program, so their type is the parameter \<open>'n\<close>.
  A Go map is an association list read with \<open>map_of\<close>: a key has at most one
  visible binding, and the order of the entries is never observed.
\<close>

datatype 'n json =
    JNull
  | JBool bool
  | JNumber 'n
  | JString string
  | JSlice "'n json list"
  | JMap "(string \<times> 'n json) list"

text \<open>Indexing a Go map: a missing key gives the zero value of \<^verbatim>\<open>any\<close>, which is \<^verbatim>\<open>nil\<close>.\<close>

definition index :: "(string \<times> 'n json) list \<Rightarrow> string \<Rightarrow> 'n json" where
  "index m k = (case map_of m k of None \<Rightarrow> JNull | Some v \<Rightarrow> v)"

text \<open>
  The helpers of \<^verbatim>\<open>k8s.io/apimachinery/.../unstructured\<close> return a value, a \<^verbatim>\<open>found\<close>
  flag and an error. The three outcomes are one datatype: the field is there with the
  expected type, the path is absent, or a value on the path has the wrong type.
\<close>

datatype 'a nested = Found 'a | Absent | WrongType

fun NestedFieldNoCopy :: "'n json \<Rightarrow> string list \<Rightarrow> 'n json nested" where
  "NestedFieldNoCopy val [] = Found val"
| "NestedFieldNoCopy val (field # fields) =
     (case val of
        JNull \<Rightarrow> Absent
      | JMap m \<Rightarrow>
          (case map_of m field of
             None \<Rightarrow> Absent
           | Some v \<Rightarrow> NestedFieldNoCopy v fields)
      | _ \<Rightarrow> WrongType)"

definition NestedMap :: "(string \<times> 'n json) list \<Rightarrow> string list \<Rightarrow> (string \<times> 'n json) list nested" where
  "NestedMap obj fields =
     (case NestedFieldNoCopy (JMap obj) fields of
        Found (JMap m) \<Rightarrow> Found m
      | Found _ \<Rightarrow> WrongType
      | Absent \<Rightarrow> Absent
      | WrongType \<Rightarrow> WrongType)"

definition NestedSlice :: "(string \<times> 'n json) list \<Rightarrow> string list \<Rightarrow> 'n json list nested" where
  "NestedSlice obj fields =
     (case NestedFieldNoCopy (JMap obj) fields of
        Found (JSlice xs) \<Rightarrow> Found xs
      | Found _ \<Rightarrow> WrongType
      | Absent \<Rightarrow> Absent
      | WrongType \<Rightarrow> WrongType)"

definition NestedString :: "(string \<times> 'n json) list \<Rightarrow> string list \<Rightarrow> string nested" where
  "NestedString obj fields =
     (case NestedFieldNoCopy (JMap obj) fields of
        Found (JString s) \<Rightarrow> Found s
      | Found _ \<Rightarrow> WrongType
      | Absent \<Rightarrow> Absent
      | WrongType \<Rightarrow> WrongType)"

text \<open>
  The program discards the flag and the error of \<^verbatim>\<open>NestedString\<close> and of the
  tracked object's \<^verbatim>\<open>NestedMap\<close>, and keeps the value: the empty string, the nil map.
\<close>

definition stringOrEmpty :: "string nested \<Rightarrow> string" where
  "stringOrEmpty r = (case r of Found s \<Rightarrow> s | _ \<Rightarrow> [])"

definition mapOrNil :: "(string \<times> 'n json) list nested \<Rightarrow> (string \<times> 'n json) list" where
  "mapOrNil r = (case r of Found m \<Rightarrow> m | _ \<Rightarrow> [])"

text \<open>
  \<^verbatim>\<open>fmt.Sprintf("%v", v)\<close> on a value of a document: \<^verbatim>\<open>nil\<close> prints as \<^verbatim>\<open><nil>\<close>, a
  string as itself, a boolean as \<^verbatim>\<open>true\<close> or \<^verbatim>\<open>false\<close>. How numbers, slices and maps
  print is left to the parameter \<open>fmtv\<close>.
\<close>

definition Sprintf_v :: "('n json \<Rightarrow> string) \<Rightarrow> 'n json \<Rightarrow> string" where
  "Sprintf_v fmtv v =
     (case v of
        JNull \<Rightarrow> ''<nil>''
      | JString s \<Rightarrow> s
      | JBool b \<Rightarrow> (if b then ''true'' else ''false'')
      | _ \<Rightarrow> fmtv v)"


section \<open>Status Interpreter\<close>

text \<open>
  The loop of \<^verbatim>\<open>parseKnativeStatus\<close> over the conditions: an entry that is not a map
  is skipped, and the first map whose \<^verbatim>\<open>type\<close> is the string \<^verbatim>\<open>Ready\<close> decides.
\<close>

fun scanConditions :: "('n json \<Rightarrow> string) \<Rightarrow> string \<Rightarrow> 'n json list \<Rightarrow> bool \<times> string \<times> string" where
  "scanConditions fmtv url [] = (False, ''Ready condition not found'', url)"
| "scanConditions fmtv url (JMap cond # cs) =
     (if index cond ''type'' = JString ''Ready'' then
        (if index cond ''status'' = JString ''True'' then (True, [], url)
         else (False, Sprintf_v fmtv (index cond ''message''), url))
      else scanConditions fmtv url cs)"
| "scanConditions fmtv url (_ # cs) = scanConditions fmtv url cs"

definition parseKnativeStatus :: "('n json \<Rightarrow> string) \<Rightarrow> (string \<times> 'n json) list \<Rightarrow> bool \<times> string \<times> string" where
  "parseKnativeStatus fmtv obj =
     (case NestedMap obj [''status''] of
        Found status \<Rightarrow>
          (let url = stringOrEmpty (NestedString status [''url'']) in
           case NestedSlice status [''conditions''] of
             Found conditions \<Rightarrow> scanConditions fmtv url conditions
           | _ \<Rightarrow> (False, ''No conditions'', url))
      | _ \<Rightarrow> (False, ''No status'', []))"

text \<open>The entries that the loop looks at: maps whose \<^verbatim>\<open>type\<close> is \<^verbatim>\<open>Ready\<close>.\<close>

fun isReadyCondition :: "'n json \<Rightarrow> bool" where
  "isReadyCondition (JMap cond) = (index cond ''type'' = JString ''Ready'')"
| "isReadyCondition _ = False"

fun hasStatusTrue :: "'n json \<Rightarrow> bool" where
  "hasStatusTrue (JMap cond) = (index cond ''status'' = JString ''True'')"
| "hasStatusTrue _ = False"

fun hasMessage :: "'n json \<Rightarrow> bool" where
  "hasMessage (JMap cond) = (map_of cond ''message'' \<noteq> None)"
| "hasMessage _ = False"

text \<open>A status document with the given url field and conditions list.\<close>

definition statusDocument :: "(string \<times> 'n json) list \<Rightarrow> (string \<times> 'n json) list \<Rightarrow> string \<Rightarrow> 'n json list \<Rightarrow> bool" where
  "statusDocument obj status url conditions \<longleftrightarrow>
     map_of obj ''status'' = Some (JMap status) \<and>
     stringOrEmpty (NestedString status [''url'']) = url \<and>
     map_of status ''conditions'' = Some (JSlice conditions)"



section \<open>Strings as bytes\<close>

text \<open>
  A Go string is a sequence of bytes, here a list of \<open>char\<close>. Two library functions
  the program calls read the bytes as UTF-8: \<^verbatim>\<open>json.Marshal\<close> and \<^verbatim>\<open>strings.TrimSpace\<close>.

  \<open>runeLen\<close> is the length of the well-formed UTF-8 encoding at the head of a string,
  and 0 when there is none (\<^verbatim>\<open>utf8.DecodeRuneInString\<close> then reports an error of
  width 1). The accepted ranges of the second byte depend on the first, as in the
  standard.
\<close>

definition between :: "nat \<Rightarrow> char \<Rightarrow> nat \<Rightarrow> bool" where
  "between lo c hi \<longleftrightarrow> lo \<le> of_char c \<and> (of_char c :: nat) \<le> hi"

fun runeLen :: "string \<Rightarrow> nat" where
  "runeLen [] = 0"
| "runeLen (b0 # rest) =
     (if (of_char b0 :: nat) < 0x80 then 1
      else if between 0xC2 b0 0xDF then
        (case rest of
           b1 # _ \<Rightarrow> if between 0x80 b1 0xBF then 2 else 0
         | _ \<Rightarrow> 0)
      else if between 0xE0 b0 0xEF then
        (case rest of
           b1 # b2 # _ \<Rightarrow>
             if between (if b0 = CHR 0xE0 then 0xA0 else 0x80) b1 (if b0 = CHR 0xED then 0x9F else 0xBF)
                \<and> between 0x80 b2 0xBF
             then 3 else 0
         | _ \<Rightarrow> 0)
      else if between 0xF0 b0 0xF4 then
        (case rest of
           b1 # b2 # b3 # _ \<Rightarrow>
             if between (if b0 = CHR 0xF0 then 0x90 else 0x80) b1 (if b0 = CHR 0xF4 then 0x8F else 0xBF)
                \<and> between 0x80 b2 0xBF \<and> between 0x80 b3 0xBF
             then 4 else 0
         | _ \<Rightarrow> 0)
      else 0)"

text \<open>
  \<^verbatim>\<open>json.Marshal\<close> writes a string rune by rune and writes the replacement character
  U+FFFD for every byte that does not start a well-formed encoding. The first argument
  of \<open>coerceFrom\<close> counts the bytes of the current rune that are still to be copied.
\<close>

fun coerceFrom :: "nat \<Rightarrow> string \<Rightarrow> string" where
  "coerceFrom k [] = []"
| "coerceFrom (Suc k) (c # cs) = c # coerceFrom k cs"
| "coerceFrom 0 (c # cs) =
     (if runeLen (c # cs) = 0 then [CHR 0xEF, CHR 0xBF, CHR 0xBD] @ coerceFrom 0 cs
      else c # coerceFrom (runeLen (c # cs) - 1) cs)"

definition coerceUTF8 :: "string \<Rightarrow> string" where
  "coerceUTF8 s = coerceFrom 0 s"

text \<open>\<^verbatim>\<open>utf8.ValidString\<close>: every byte belongs to a well-formed encoding.\<close>

fun validFrom :: "nat \<Rightarrow> string \<Rightarrow> bool" where
  "validFrom k [] = True"
| "validFrom (Suc k) (c # cs) = validFrom k cs"
| "validFrom 0 (c # cs) = (runeLen (c # cs) \<noteq> 0 \<and> validFrom (runeLen (c # cs) - 1) cs)"

definition ValidString :: "string \<Rightarrow> bool" where
  "ValidString s = validFrom 0 s"

text \<open>
  The document that the bytes of \<^verbatim>\<open>json.Marshal\<close> stand for: the same tree, with every
  string and every key coerced to UTF-8. For the documents of this program, which hold
  strings, slices and maps only, \<^verbatim>\<open>json.Marshal\<close> cannot fail.
\<close>

fun marshalled :: "'n json \<Rightarrow> 'n json" where
  "marshalled (JString s) = JString (coerceUTF8 s)"
| "marshalled (JSlice xs) = JSlice (map marshalled xs)"
| "marshalled (JMap m) = JMap (map (\<lambda>(k, v). (coerceUTF8 k, marshalled v)) m)"
| "marshalled v = v"

text \<open>
  The white space of \<^verbatim>\<open>strings.TrimSpace\<close> is that of \<^verbatim>\<open>unicode.IsSpace\<close>: the six ASCII
  blanks, U+0085, U+00A0, U+1680, U+2000 to U+200A, U+2028, U+2029, U+202F, U+205F and
  U+3000, listed here by their UTF-8 encodings. A string begins (ends) with a white
  space rune exactly when it begins (ends) with one of these byte sequences.
\<close>

definition spaceEncodings :: "string list" where
  "spaceEncodings =
     [[CHR 0x09], [CHR 0x0A], [CHR 0x0B], [CHR 0x0C], [CHR 0x0D], [CHR 0x20],
      [CHR 0xC2, CHR 0x85], [CHR 0xC2, CHR 0xA0],
      [CHR 0xE1, CHR 0x9A, CHR 0x80],
      [CHR 0xE2, CHR 0x80, CHR 0x80], [CHR 0xE2, CHR 0x80, CHR 0x81],
      [CHR 0xE2, CHR 0x80, CHR 0x82], [CHR 0xE2, CHR 0x80, CHR 0x83],
      [CHR 0xE2, CHR 0x80, CHR 0x84], [CHR 0xE2, CHR 0x80, CHR 0x85],
      [CHR 0xE2, CHR 0x80, CHR 0x86], [CHR 0xE2, CHR 0x80, CHR 0x87],
      [CHR 0xE2, CHR 0x80, CHR 0x88], [CHR 0xE2, CHR 0x80, CHR 0x89],
      [CHR 0xE2, CHR 0x80, CHR 0x8A],
      [CHR 0xE2, CHR 0x80, CHR 0xA8], [CHR 0xE2, CHR 0x80, CHR 0xA9],
      [CHR 0xE2, CHR 0x80, CHR 0xAF], [CHR 0xE2, CHR 0x81, CHR 0x9F],
      [CHR 0xE3, CHR 0x80, CHR 0x80]]"

text \<open>The length of the entry of the table that the string begins with, 0 when there is none.\<close>

definition matchLen :: "string list \<Rightarrow> string \<Rightarrow> nat" where
  "matchLen table s =
     (case filter (\<lambda>p. take (length p) s = p) table of
        [] \<Rightarrow> 0
      | p # _ \<Rightarrow> length p)"

text \<open>
  Dropping leading entries of the table until the string begins with none; the second
  argument counts the bytes of the current entry still to be dropped.
\<close>

fun trimFrom :: "string list \<Rightarrow> nat \<Rightarrow> string \<Rightarrow> string" where
  "trimFrom table k [] = []"
| "trimFrom table (Suc k) (c # cs) = trimFrom table k cs"
| "trimFrom table 0 (c # cs) =
     (if matchLen table (c # cs) = 0 then c # cs
      else trimFrom table (matchLen table (c # cs) - 1) cs)"

definition TrimSpace :: "string \<Rightarrow> string" where
  "TrimSpace s =
     rev (trimFrom (map rev spaceEncodings) 0 (rev (trimFrom spaceEncodings 0 s)))"


section \<open>Errors\<close>

text \<open>
  Every error value the program can see: the two errors of a cancelled or expired
  context, an API status error with reason not-found, any other failure of a client
  call, a message made by \<^verbatim>\<open>fmt.Errorf\<close>, and an error wrapped with \<^verbatim>\<open>%w\<close>.
\<close>

datatype error =
    Canceled
  | DeadlineExceeded
  | StatusNotFound
  | Failure string
  | Errorf string
  | Wrap string error

fun IsNotFound :: "error \<Rightarrow> bool" where
  "IsNotFound StatusNotFound = True"
| "IsNotFound (Wrap _ e) = IsNotFound e"
| "IsNotFound _ = False"


section \<open>Configuration\<close>

text \<open>
  The process environment is a partial map; \<^verbatim>\<open>os.Getenv\<close> gives the empty string for
  a variable that is not set. \<^verbatim>\<open>os.Args\<close> is a list of strings whose first element is
  the program's name.
\<close>

type_synonym environ = "string \<rightharpoonup> string"

definition Getenv :: "environ \<Rightarrow> string \<Rightarrow> string" where
  "Getenv env k = (case env k of None \<Rightarrow> [] | Some v \<Rightarrow> v)"

record EnvConfig =
  Audience :: string
  ForwardedEnvVars :: string
  FunctionBasePath :: string
  FunctionGeneration :: string
  FunctionHost :: string
  FunctionImage :: string
  FunctionName :: string
  FunctionNamespace :: string
  Issuer :: string
  JWKSURL :: string
  ScalingActivationScale :: string
  ScalingInitialScale :: string
  ScalingMaxScale :: string
  ScalingMetric :: string
  ScalingMinScale :: string
  ScalingPanicThresholdPercentage :: string
  ScalingPanicWindowPercentage :: string
  ScalingScaleDownDelay :: string
  ScalingScaleToZeroPodRetentionPeriod :: string
  ScalingStableWindow :: string
  ScalingTarget :: string
  ScalingTargetUtilizationPercentage :: string

definition readEnv :: "environ \<Rightarrow> EnvConfig" where
  "readEnv env =
     \<lparr> Audience = Getenv env ''AUDIENCE'',
       ForwardedEnvVars = Getenv env ''FORWARDED_ENV_VARS'',
       FunctionBasePath = Getenv env ''FUNCTION_BASEPATH'',
       FunctionGeneration = Getenv env ''FUNCTION_GENERATION'',
       FunctionHost = Getenv env ''FUNCTION_HOST'',
       FunctionImage = Getenv env ''FUNCTION_IMAGE'',
       FunctionName = Getenv env ''FUNCTION_NAME'',
       FunctionNamespace = Getenv env ''FUNCTION_NAMESPACE'',
       Issuer = Getenv env ''ISSUER'',
       JWKSURL = Getenv env ''JWKS_URL'',
       ScalingActivationScale = Getenv env ''SCALING_ACTIVATION_SCALE'',
       ScalingInitialScale = Getenv env ''SCALING_INITIAL_SCALE'',
       ScalingMaxScale = Getenv env ''SCALING_MAX_SCALE'',
       ScalingMetric = Getenv env ''SCALING_METRIC'',
       ScalingMinScale = Getenv env ''SCALING_MIN_SCALE'',
       ScalingPanicThresholdPercentage = Getenv env ''SCALING_PANIC_THRESHOLD_PERCENTAGE'',
       ScalingPanicWindowPercentage = Getenv env ''SCALING_PANIC_WINDOW_PERCENTAGE'',
       ScalingScaleDownDelay = Getenv env ''SCALING_SCALE_DOWN_DELAY'',
       ScalingScaleToZeroPodRetentionPeriod = Getenv env ''SCALING_SCALE_TO_ZERO_POD_RETENTION_PERIOD'',
       ScalingStableWindow = Getenv env ''SCALING_STABLE_WINDOW'',
       ScalingTarget = Getenv env ''SCALING_TARGET'',
       ScalingTargetUtilizationPercentage = Getenv env ''SCALING_TARGET_UTILIZATION_PERCENTAGE'' \<rparr>"

text \<open>
  \<^verbatim>\<open>LoadEnv\<close> of \<^verbatim>\<open>cmd/main.go\<close>. The image is demanded only when a second argument is
  there and is the word \<^verbatim>\<open>deploy\<close>.
\<close>

definition LoadEnv :: "string list \<Rightarrow> environ \<Rightarrow> error + EnvConfig" where
  "LoadEnv args env =
     (let cfg = readEnv env in
      if FunctionName cfg = [] then Inl (Errorf ''FUNCTION_NAME is required'')
      else if FunctionNamespace cfg = [] then Inl (Errorf ''FUNCTION_NAMESPACE is required'')
      else if FunctionImage cfg = [] \<and> length args > 1 \<and> args ! 1 = ''deploy''
        then Inl (Errorf ''FUNCTION_IMAGE is required for deploy'')
      else Inr cfg)"

text \<open>
  The second source file of the repository (\<^verbatim>\<open>unnamed/part_000\<close>) is an earlier text of
  the same program: its configuration has nine fields, no base path and no scaling
  knobs. Its definitions carry the suffix \<open>_part000\<close>.
\<close>

record EnvConfig_part000 =
  FunctionHost_part000 :: string
  FunctionGeneration_part000 :: string
  FunctionName_part000 :: string
  FunctionNamespace_part000 :: string
  FunctionImage_part000 :: string
  ForwardedEnvVars_part000 :: string
  Audience_part000 :: string
  Issuer_part000 :: string
  JWKSURL_part000 :: string

definition readEnv_part000 :: "environ \<Rightarrow> EnvConfig_part000" where
  "readEnv_part000 env =
     \<lparr> FunctionHost_part000 = Getenv env ''FUNCTION_HOST'',
       FunctionGeneration_part000 = Getenv env ''FUNCTION_GENERATION'',
       FunctionName_part000 = Getenv env ''FUNCTION_NAME'',
       FunctionNamespace_part000 = Getenv env ''FUNCTION_NAMESPACE'',
       FunctionImage_part000 = Getenv env ''FUNCTION_IMAGE'',
       ForwardedEnvVars_part000 = Getenv env ''FORWARDED_ENV_VARS'',
       Audience_part000 = Getenv env ''AUDIENCE'',
       Issuer_part000 = Getenv env ''ISSUER'',
       JWKSURL_part000 = Getenv env ''JWKS_URL'' \<rparr>"

definition LoadEnv_part000 :: "string list \<Rightarrow> environ \<Rightarrow> error + EnvConfig_part000" where
  "LoadEnv_part000 args env =
     (let cfg = readEnv_part000 env in
      if FunctionName_part000 cfg = [] then Inl (Errorf ''FUNCTION_NAME is required'')
      else if FunctionNamespace_part000 cfg = [] then Inl (Errorf ''FUNCTION_NAMESPACE is required'')
      else if FunctionImage_part000 cfg = [] \<and> length args > 1 \<and> args ! 1 = ''deploy''
        then Inl (Errorf ''FUNCTION_IMAGE is required for deploy'')
      else Inr cfg)"


section \<open>The cluster and the effects of a run\<close>

text \<open>
  The program talks to its surroundings through the dynamic client, the wait loop's
  timer and ticker, and one file write. A \<open>world\<close> fixes what each of these calls
  answers; a run returns, beside its error, the list of calls it made, in order.
  Console output is not part of the model. The reads of the wait loop are not listed
  among the effects: they are the \<open>Tick\<close> events of the trace the loop consumes.
\<close>

datatype cancellation = ByCancel | ByDeadline

fun Err :: "cancellation \<Rightarrow> error" where
  "Err ByCancel = Canceled"
| "Err ByDeadline = DeadlineExceeded"

datatype 'n select =
    Done cancellation
  | Timeout
  | Tick "error + (string \<times> 'n json) list"

record 'n world =
  inClusterConfig :: "error option"
  newForConfig :: "error option"
  applyService :: "string \<Rightarrow> string \<Rightarrow> 'n json \<Rightarrow> error option"
  selects :: "'n select list"
  getService :: "string \<Rightarrow> string \<Rightarrow> error + (string \<times> 'n json) list"
  getFunction :: "string \<Rightarrow> string \<Rightarrow> error + (string \<times> 'n json) list"
  patchStatus :: "string \<Rightarrow> string \<Rightarrow> 'n json \<Rightarrow> error option"
  writeFile :: "string \<Rightarrow> 'n json \<Rightarrow> error option"

datatype 'n effect =
    NewClient
  | ApplyService string string "'n json"
  | GetService string string
  | GetFunction string string
  | PatchStatus string string "'n json"
  | WriteFile string "'n json"

definition getDynamicClient :: "'n world \<Rightarrow> error option" where
  "getDynamicClient w =
     (case inClusterConfig w of
        Some err \<Rightarrow> Some (Wrap ''failed to get in-cluster config'' err)
      | None \<Rightarrow>
          (case newForConfig w of
             Some err \<Rightarrow> Some (Wrap ''failed to create dynamic client'' err)
           | None \<Rightarrow> None))"


section \<open>Readiness Poller\<close>

text \<open>
  Each turn of the loop of \<^verbatim>\<open>waitForReady\<close> is one \<^verbatim>\<open>select\<close> over three channels:
  the context's \<^verbatim>\<open>Done\<close>, the five-minute timer and the two-second ticker. An
  execution is the list of the branches taken, a \<open>Tick\<close> carrying what the read of
  that turn answered. The result is \<open>None\<close> while the loop has not returned at the end
  of the list: it is still polling.
\<close>

fun waitForReady :: "('n json \<Rightarrow> string) \<Rightarrow> 'n select list \<Rightarrow> (error + string) option" where
  "waitForReady fmtv [] = None"
| "waitForReady fmtv (Done c # rest) = Some (Inl (Err c))"
| "waitForReady fmtv (Timeout # rest) = Some (Inl (Errorf ''timeout waiting for service readiness''))"
| "waitForReady fmtv (Tick (Inl err) # rest) =
     (if IsNotFound err then waitForReady fmtv rest else Some (Inl err))"
| "waitForReady fmtv (Tick (Inr obj) # rest) =
     (case parseKnativeStatus fmtv obj of
        (isReady, msg, url) \<Rightarrow>
          if isReady then Some (Inr url) else waitForReady fmtv rest)"


section \<open>Desired-State Builder\<close>

text \<open>\<^verbatim>\<open>strings.Split(s, ",")\<close>: the pieces between the commas, at least one.\<close>

fun Split :: "string \<Rightarrow> string list" where
  "Split [] = [[]]"
| "Split (c # cs) =
     (if c = CHR '','' then [] # Split cs
      else (case Split cs of
              [] \<Rightarrow> [[c]]
            | x # xs \<Rightarrow> (c # x) # xs))"

definition containerEnv :: "environ \<Rightarrow> string \<Rightarrow> 'n json list" where
  "containerEnv env forwarded =
     (if forwarded \<noteq> [] then
        map (\<lambda>v. JMap [(''name'', JString v), (''value'', JString (Getenv env v))])
          (filter (\<lambda>v. v \<noteq> []) (map TrimSpace (Split forwarded)))
      else [])"

text \<open>
  The annotations of \<^verbatim>\<open>cmd/main.go\<close>: one \<^verbatim>\<open>if\<close> per scaling knob, each writing its
  own key of the map when the knob's value is not the empty string. The knobs are
  listed with their keys in the order of the source.
\<close>

definition scalingKnobs :: "EnvConfig \<Rightarrow> (string \<times> string) list" where
  "scalingKnobs cfg =
     [(''autoscaling.knative.dev/activation-scale'', ScalingActivationScale cfg),
      (''autoscaling.knative.dev/initial-scale'', ScalingInitialScale cfg),
      (''autoscaling.knative.dev/max-scale'', ScalingMaxScale cfg),
      (''autoscaling.knative.dev/metric'', ScalingMetric cfg),
      (''autoscaling.knative.dev/min-scale'', ScalingMinScale cfg),
      (''autoscaling.knative.dev/panic-threshold-percentage'', ScalingPanicThresholdPercentage cfg),
      (''autoscaling.knative.dev/panic-window-percentage'', ScalingPanicWindowPercentage cfg),
      (''autoscaling.knative.dev/scale-down-delay'', ScalingScaleDownDelay cfg),
      (''autoscaling.knative.dev/scale-to-zero-pod-retention-period'', ScalingScaleToZeroPodRetentionPeriod cfg),
      (''autoscaling.knative.dev/target'', ScalingTarget cfg),
      (''autoscaling.knative.dev/target-utilization-percentage'', ScalingTargetUtilizationPercentage cfg),
      (''autoscaling.knative.dev/window'', ScalingStableWindow cfg)]"

fun setKnobs :: "(string \<times> string) list \<Rightarrow> (string \<times> string) list" where
  "setKnobs [] = []"
| "setKnobs ((key, val) # rest) =
     (if val \<noteq> [] then (key, val) # setKnobs rest else setKnobs rest)"

definition annotations :: "EnvConfig \<Rightarrow> (string \<times> string) list" where
  "annotations cfg = setKnobs (scalingKnobs cfg)"

fun stringMap :: "(string \<times> string) list \<Rightarrow> (string \<times> 'n json) list" where
  "stringMap [] = []"
| "stringMap ((k, v) # rest) = (k, JString v) # stringMap rest"

text \<open>
  The Knative Service that \<^verbatim>\<open>runDeploy\<close> of \<^verbatim>\<open>cmd/main.go\<close> builds, after
  \<^verbatim>\<open>SetAnnotations\<close> has stored the annotations under \<^verbatim>\<open>metadata.annotations\<close> and
  before \<^verbatim>\<open>json.Marshal\<close>.
\<close>

definition service :: "environ \<Rightarrow> EnvConfig \<Rightarrow> (string \<times> 'n json) list" where
  "service env cfg =
     [(''apiVersion'', JString ''serving.knative.dev/v1''),
      (''kind'', JString ''Service''),
      (''metadata'', JMap
         [(''name'', JString (FunctionName cfg)),
          (''namespace'', JString (FunctionNamespace cfg)),
          (''labels'', JMap
             [(''kdex.dev/function'', JString (FunctionName cfg)),
              (''kdex.dev/generation'', JString (FunctionGeneration cfg))]),
          (''annotations'', JMap (stringMap (annotations cfg)))]),
      (''spec'', JMap
         [(''template'', JMap
            [(''metadata'', JMap
                [(''labels'', JMap
                    [(''kdex.dev/function'', JString (FunctionName cfg)),
                     (''kdex.dev/generation'', JString (FunctionGeneration cfg))])]),
             (''spec'', JMap
                [(''containers'', JSlice
                    [JMap [(''image'', JString (FunctionImage cfg)),
                           (''env'', JSlice (containerEnv env (ForwardedEnvVars cfg)))]])])])])]"

text \<open>
  The Service of \<^verbatim>\<open>unnamed/part_000\<close>: no annotations on the Service itself, and a
  fixed \<^verbatim>\<open>minScale\<close> annotation on the revision template.
\<close>

definition service_part000 :: "environ \<Rightarrow> EnvConfig_part000 \<Rightarrow> (string \<times> 'n json) list" where
  "service_part000 env cfg =
     [(''apiVersion'', JString ''serving.knative.dev/v1''),
      (''kind'', JString ''Service''),
      (''metadata'', JMap
         [(''name'', JString (FunctionName_part000 cfg)),
          (''namespace'', JString (FunctionNamespace_part000 cfg)),
          (''labels'', JMap
             [(''kdex.dev/function'', JString (FunctionName_part000 cfg)),
              (''kdex.dev/generation'', JString (FunctionGeneration_part000 cfg))])]),
      (''spec'', JMap
         [(''template'', JMap
            [(''metadata'', JMap
                [(''annotations'', JMap
                    [(''autoscaling.knative.dev/minScale'', JString ''0'')]),
                 (''labels'', JMap
                    [(''kdex.dev/function'', JString (FunctionName_part000 cfg)),
                     (''kdex.dev/generation'', JString (FunctionGeneration_part000 cfg))])]),
             (''spec'', JMap
                [(''containers'', JSlice
                    [JMap [(''image'', JString (FunctionImage_part000 cfg)),
                           (''env'', JSlice (containerEnv env (ForwardedEnvVars_part000 cfg)))]])])])])]"


section \<open>Deploy Flow\<close>

definition writeTerminationMessage :: "environ \<Rightarrow> 'n world \<Rightarrow> string \<Rightarrow> error option \<times> 'n effect list" where
  "writeTerminationMessage env w url =
     (let msg = JMap [(''url'', JString url)];
          custom = Getenv env ''TERMINATION_LOG_PATH'';
          path = (if custom \<noteq> [] then custom else ''/dev/termination-log'')
      in (writeFile w path (marshalled msg), [WriteFile path (marshalled msg)]))"

text \<open>
  \<^verbatim>\<open>runDeploy\<close> from \<^verbatim>\<open>json.Marshal\<close> onwards, the same text in both source files:
  marshal and apply the Service, wait for readiness, write the termination message. The result is \<open>None\<close>
  when the wait loop has not returned within the given trace.
\<close>

definition applyAndWait ::
  "('n json \<Rightarrow> string) \<Rightarrow> environ \<Rightarrow> 'n world \<Rightarrow> string \<Rightarrow> string \<Rightarrow> (string \<times> 'n json) list \<Rightarrow>
   (error option \<times> 'n effect list) option" where
  "applyAndWait fmtv env w namespace name svc =
     (let data = marshalled (JMap svc) in
      case applyService w namespace name data of
        Some err \<Rightarrow>
          Some (Some (Wrap ''failed to apply knative service'' err),
                [NewClient, ApplyService namespace name data])
      | None \<Rightarrow>
          (case waitForReady fmtv (selects w) of
             None \<Rightarrow> None
           | Some (Inl err) \<Rightarrow>
               Some (Some (Wrap ''failed to wait for service readiness'' err),
                     [NewClient, ApplyService namespace name data])
           | Some (Inr url) \<Rightarrow>
               (case writeTerminationMessage env w url of
                  (Some err, fx) \<Rightarrow>
                    Some (Some (Wrap ''failed to write termination message'' err),
                          [NewClient, ApplyService namespace name data] @ fx)
                | (None, fx) \<Rightarrow>
                    Some (None, [NewClient, ApplyService namespace name data] @ fx))))"

definition runDeploy ::
  "('n json \<Rightarrow> string) \<Rightarrow> string list \<Rightarrow> environ \<Rightarrow> 'n world \<Rightarrow> (error option \<times> 'n effect list) option" where
  "runDeploy fmtv args env w =
     (case LoadEnv args env of
        Inl err \<Rightarrow> Some (Some err, [])
      | Inr cfg \<Rightarrow>
          (case getDynamicClient w of
             Some err \<Rightarrow> Some (Some err, [NewClient])
           | None \<Rightarrow>
               applyAndWait fmtv env w (FunctionNamespace cfg) (FunctionName cfg) (service env cfg)))"

definition runDeploy_part000 ::
  "('n json \<Rightarrow> string) \<Rightarrow> string list \<Rightarrow> environ \<Rightarrow> 'n world \<Rightarrow> (error option \<times> 'n effect list) option" where
  "runDeploy_part000 fmtv args env w =
     (case LoadEnv_part000 args env of
        Inl err \<Rightarrow> Some (Some err, [])
      | Inr cfg \<Rightarrow>
          (case getDynamicClient w of
             Some err \<Rightarrow> Some (Some err, [NewClient])
           | None \<Rightarrow>
               applyAndWait fmtv env w (FunctionNamespace_part000 cfg) (FunctionName_part000 cfg)
                 (service_part000 env cfg)))"


section \<open>Status Reconciler and Observe Flow\<close>

text \<open>The tracked state and url, as \<^verbatim>\<open>runObserve\<close> reads them from the KDexFunction.\<close>

definition currentState :: "(string \<times> 'n json) list \<Rightarrow> string" where
  "currentState kfObj =
     stringOrEmpty (NestedString (mapOrNil (NestedMap kfObj [''status''])) [''state''])"

definition currentURL :: "(string \<times> 'n json) list \<Rightarrow> string" where
  "currentURL kfObj =
     stringOrEmpty (NestedString (mapOrNil (NestedMap kfObj [''status''])) [''url''])"

record decision =
  needsUpdate :: bool
  newState :: string
  newDetail :: string

text \<open>
  The status transition logic of \<^verbatim>\<open>runObserve\<close> in \<^verbatim>\<open>cmd/main.go\<close>, from
  \<^verbatim>\<open>needsUpdate := false\<close> to the end of the \<^verbatim>\<open>if isReady\<close> statement. Both details are
  built from the live url and the configured base path; the interpreter's message
  \<open>msg\<close> is not used.
\<close>

definition reconcile :: "string \<Rightarrow> bool \<Rightarrow> string \<Rightarrow> string \<Rightarrow> string \<Rightarrow> string \<Rightarrow> decision" where
  "reconcile basePath isReady msg url state trackedURL =
     (let d = \<lparr> needsUpdate = False, newState = state, newDetail = [] \<rparr> in
      if isReady then
        (let d = (if state \<noteq> ''Ready''
                  then \<lparr> needsUpdate = True, newState = ''Ready'',
                         newDetail = ''Ready: '' @ url @ basePath \<rparr>
                  else d)
         in if trackedURL \<noteq> url then d \<lparr> needsUpdate := True \<rparr> else d)
      else
        (if state = ''Ready''
         then \<lparr> needsUpdate = True, newState = ''FunctionDeployed'',
                newDetail = ''NotReady: '' @ url @ basePath \<rparr>
         else d))"

text \<open>The same lines of \<^verbatim>\<open>unnamed/part_000\<close>: no base path, and the degrade detail is the message.\<close>

definition reconcile_part000 :: "bool \<Rightarrow> string \<Rightarrow> string \<Rightarrow> string \<Rightarrow> string \<Rightarrow> decision" where
  "reconcile_part000 isReady msg url state trackedURL =
     (let d = \<lparr> needsUpdate = False, newState = state, newDetail = [] \<rparr> in
      if isReady then
        (let d = (if state \<noteq> ''Ready''
                  then \<lparr> needsUpdate = True, newState = ''Ready'',
                         newDetail = ''Ready: '' @ url \<rparr>
                  else d)
         in if trackedURL \<noteq> url then d \<lparr> needsUpdate := True \<rparr> else d)
      else
        (if state = ''Ready''
         then \<lparr> needsUpdate = True, newState = ''FunctionDeployed'',
                newDetail = ''NotReady: '' @ msg \<rparr>
         else d))"

text \<open>
  The merge patch before \<^verbatim>\<open>json.Marshal\<close>: state and url always, detail only when it is
  not empty.
\<close>

definition specPatch :: "decision \<Rightarrow> string \<Rightarrow> 'n json" where
  "specPatch d url =
     JMap [(''status'', JMap
        ([(''state'', JString (newState d)), (''url'', JString url)] @
         (if newDetail d \<noteq> [] then [(''detail'', JString (newDetail d))] else [])))]"

text \<open>
  \<^verbatim>\<open>runObserve\<close> from the first read onwards, the same text in both source files but
  for the transition logic, which is the parameter \<open>decide\<close>. The patch that is sent is
  the marshalled one. The objects that the reads answer are documents decoded from
  JSON.
\<close>

definition observe ::
  "('n json \<Rightarrow> string) \<Rightarrow> 'n world \<Rightarrow> string \<Rightarrow> string \<Rightarrow>
   (bool \<Rightarrow> string \<Rightarrow> string \<Rightarrow> string \<Rightarrow> string \<Rightarrow> decision) \<Rightarrow>
   error option \<times> 'n effect list" where
  "observe fmtv w namespace name decide =
     (case getService w namespace name of
        Inl err \<Rightarrow>
          (if IsNotFound err then (None, [NewClient, GetService namespace name])
           else (Some (Wrap ''failed to get knative service'' err),
                 [NewClient, GetService namespace name]))
      | Inr ksObj \<Rightarrow>
          (case parseKnativeStatus fmtv ksObj of
             (isReady, msg, url) \<Rightarrow>
               (case getFunction w namespace name of
                  Inl err \<Rightarrow>
                    (Some (Wrap ''failed to get kdex function'' err),
                     [NewClient, GetService namespace name, GetFunction namespace name])
                | Inr kfObj \<Rightarrow>
                    (let d = decide isReady msg url (currentState kfObj) (currentURL kfObj) in
                     if needsUpdate d then
                       (let patchBytes = marshalled (specPatch d url) in
                        case patchStatus w namespace name patchBytes of
                          Some err \<Rightarrow>
                            (Some (Wrap ''failed to patch kdex function status'' err),
                             [NewClient, GetService namespace name, GetFunction namespace name,
                              PatchStatus namespace name patchBytes])
                        | None \<Rightarrow>
                            (None,
                             [NewClient, GetService namespace name, GetFunction namespace name,
                              PatchStatus namespace name patchBytes]))
                     else
                       (None,
                        [NewClient, GetService namespace name, GetFunction namespace name])))))"

definition runObserve ::
  "('n json \<Rightarrow> string) \<Rightarrow> string list \<Rightarrow> environ \<Rightarrow> 'n world \<Rightarrow> error option \<times> 'n effect list" where
  "runObserve fmtv args env w =
     (case LoadEnv args env of
        Inl err \<Rightarrow> (Some err, [])
      | Inr cfg \<Rightarrow>
          (case getDynamicClient w of
             Some err \<Rightarrow> (Some err, [NewClient])
           | None \<Rightarrow>
               observe fmtv w (FunctionNamespace cfg) (FunctionName cfg)
                 (reconcile (FunctionBasePath cfg))))"

definition runObserve_part000 ::
  "('n json \<Rightarrow> string) \<Rightarrow> string list \<Rightarrow> environ \<Rightarrow> 'n world \<Rightarrow> error option \<times> 'n effect list" where
  "runObserve_part000 fmtv args env w =
     (case LoadEnv_part000 args env of
        Inl err \<Rightarrow> (Some err, [])
      | Inr cfg \<Rightarrow>
          (case getDynamicClient w of
             Some err \<Rightarrow> (Some err, [NewClient])
           | None \<Rightarrow>
               observe fmtv w (FunctionNamespace_part000 cfg) (FunctionName_part000 cfg)
                 reconcile_part000))"

fun isPatch :: "'n effect \<Rightarrow> bool" where
  "isPatch (PatchStatus _ _ _) = True"
| "isPatch _ = False"


section \<open>Entry point\<close>

text \<open>
  \<^verbatim>\<open>main\<close>: the command is the second argument, and \<^verbatim>\<open>deploy\<close> when there is none. The
  process exits with status 1 exactly when the error is not \<open>None\<close>.
\<close>

definition main ::
  "('n json \<Rightarrow> string) \<Rightarrow> string list \<Rightarrow> environ \<Rightarrow> 'n world \<Rightarrow> (error option \<times> 'n effect list) option" where
  "main fmtv args env w =
     (let cmd = (if length args > 1 then args ! 1 else ''deploy'') in
      if cmd = ''deploy'' then runDeploy fmtv args env w
      else if cmd = ''observe'' then Some (runObserve fmtv args env w)
      else Some (Some (Errorf (''unknown command: '' @ cmd)), []))"


section \<open>Concrete inputs\<close>

text \<open>
  A rendering for running the model on concrete documents: every value whose rendering
  the model leaves open prints as a question mark.
\<close>

definition opaque :: "'n json \<Rightarrow> string" where
  "opaque v = ''?''"

text \<open>
  A cluster in which every call succeeds: the client can be built, reads of the Service
  and of the KDexFunction answer the two given objects, the wait loop sees the given
  trace, and the apply, the patch and the file write go through.
\<close>

definition cluster :: "(string \<times> 'n json) list \<Rightarrow> (string \<times> 'n json) list \<Rightarrow> 'n select list \<Rightarrow> 'n world" where
  "cluster ksObj kfObj trace =
     \<lparr> inClusterConfig = None,
       newForConfig = None,
       applyService = (\<lambda>namespace name doc. None),
       selects = trace,
       getService = (\<lambda>namespace name. Inr ksObj),
       getFunction = (\<lambda>namespace name. Inr kfObj),
       patchStatus = (\<lambda>namespace name doc. None),
       writeFile = (\<lambda>path doc. None) \<rparr>"

text \<open>A process environment given as a list of bindings.\<close>

definition environment :: "(string \<times> string) list \<Rightarrow> environ" where
  "environment bindings = map_of bindings"



section \<open>Properties of the Status Interpreter\<close>

lemma parseKnativeStatus_scan:
  "statusDocument obj status url conditions \<Longrightarrow>
   parseKnativeStatus fmtv obj = scanConditions fmtv url conditions"
  by (simp add: statusDocument_def parseKnativeStatus_def NestedMap_def NestedSlice_def)

lemma scanConditions_skip:
  "\<forall>c \<in> set pre. \<not> isReadyCondition c \<Longrightarrow>
   scanConditions fmtv url (pre @ cs) = scanConditions fmtv url cs"
proof (induction pre)
  case Nil
  then show ?case by simp
next
  case (Cons c pre)
  then show ?case by (cases c) simp_all
qed

lemma scanConditions_first_ready:
  assumes "\<forall>c \<in> set pre. \<not> isReadyCondition c" and "isReadyCondition c"
  shows "scanConditions fmtv url (pre @ c # post) =
     (if hasStatusTrue c then (True, [], url)
      else (False, Sprintf_v fmtv (case c of JMap cond \<Rightarrow> index cond ''message'' | _ \<Rightarrow> JNull), url))"
proof -
  from assms(2) obtain cond where c: "c = JMap cond"
    by (cases c) simp_all
  have "scanConditions fmtv url (pre @ c # post) = scanConditions fmtv url (c # post)"
    using assms(1) by (rule scanConditions_skip)
  with assms(2) c show ?thesis by simp
qed


text \<open>
  C1 (as stated in the specification, refuted): a conditions list holds a Ready entry
  with status True, but a Ready entry with status False comes first. The interpreter
  answers from the first Ready entry: not ready, with that entry's message.
\<close>

theorem parseKnativeStatus_later_true_counterexample:
  "isReadyCondition (JMap [(''type'', JString ''Ready''), (''status'', JString ''True'')] :: nat json) \<and>
   hasStatusTrue (JMap [(''type'', JString ''Ready''), (''status'', JString ''True'')] :: nat json) \<and>
   parseKnativeStatus (opaque :: nat json \<Rightarrow> string)
     [(''status'', JMap
        [(''url'', JString ''http://x''),
         (''conditions'', JSlice
            [JMap [(''type'', JString ''Ready''), (''status'', JString ''False''),
                   (''message'', JString ''rolling out'')],
             JMap [(''type'', JString ''Ready''), (''status'', JString ''True'')]])])]
   = (False, ''rolling out'', ''http://x'') \<and>
   parseKnativeStatus (opaque :: nat json \<Rightarrow> string)
     [(''status'', JMap
        [(''url'', JString ''http://x''),
         (''conditions'', JSlice
            [JMap [(''type'', JString ''Ready''), (''status'', JString ''False''),
                   (''message'', JString ''rolling out'')],
             JMap [(''type'', JString ''Ready''), (''status'', JString ''True'')]])])]
   \<noteq> (True, [], ''http://x'' :: string)"
  by (simp add: parseKnativeStatus_def NestedMap_def NestedSlice_def NestedString_def
      stringOrEmpty_def index_def Sprintf_v_def)

text \<open>
  C1 (amended): when the first Ready-typed entry of the conditions list has status
  True, the interpreter returns \<open>(true, "", url)\<close>, whatever entries stand before it
  (none of them Ready-typed) and whatever entries follow it.
\<close>

theorem parseKnativeStatus_first_ready_true:
  assumes "statusDocument obj status url (pre @ c # post)"
    and "\<forall>x \<in> set pre. \<not> isReadyCondition x"
    and "isReadyCondition c"
    and "hasStatusTrue c"
  shows "parseKnativeStatus fmtv obj = (True, [], url)"
proof -
  have "parseKnativeStatus fmtv obj = scanConditions fmtv url (pre @ c # post)"
    using assms(1) by (rule parseKnativeStatus_scan)
  also have "\<dots> = (True, [], url)"
    using scanConditions_first_ready [OF assms(2) assms(3)] assms(4) by simp
  finally show ?thesis .
qed

theorem parseKnativeStatus_first_ready_true_witness:
  "parseKnativeStatus (opaque :: nat json \<Rightarrow> string)
     [(''status'', JMap
        [(''url'', JString ''http://x''),
         (''conditions'', JSlice
            [JString ''junk'',
             JMap [(''type'', JString ''ConfigurationsReady''), (''status'', JString ''False'')],
             JMap [(''type'', JString ''Ready''), (''status'', JString ''True'')],
             JMap [(''type'', JString ''Ready''), (''status'', JString ''False'')]])])]
   = (True, [], ''http://x'' :: string)"
proof -
  let ?pre = "[JString ''junk'',
     JMap [(''type'', JString ''ConfigurationsReady''), (''status'', JString ''False'')]] :: nat json list"
  let ?c = "JMap [(''type'', JString ''Ready''), (''status'', JString ''True'')] :: nat json"
  let ?post = "[JMap [(''type'', JString ''Ready''), (''status'', JString ''False'')]] :: nat json list"
  let ?status = "[(''url'', JString ''http://x''), (''conditions'', JSlice (?pre @ ?c # ?post))]"
  have doc: "statusDocument [(''status'', JMap ?status)] ?status ''http://x'' (?pre @ ?c # ?post)"
    by (simp add: statusDocument_def NestedString_def stringOrEmpty_def)
  have pre: "\<forall>x \<in> set ?pre. \<not> isReadyCondition x"
    by (simp add: index_def)
  have c: "isReadyCondition ?c" "hasStatusTrue ?c"
    by (simp_all add: index_def)
  show ?thesis
    using parseKnativeStatus_first_ready_true [OF doc pre c, of opaque] by simp
qed

text \<open>
  C10: when the first Ready-typed entry has a status other than True and no message
  field, the reason is the rendering of \<^verbatim>\<open>nil\<close>, the five characters \<^verbatim>\<open><nil>\<close>, and so
  is not the empty string.
\<close>

theorem parseKnativeStatus_missing_message:
  assumes "statusDocument obj status url (pre @ c # post)"
    and "\<forall>x \<in> set pre. \<not> isReadyCondition x"
    and "isReadyCondition c"
    and "\<not> hasStatusTrue c"
    and "\<not> hasMessage c"
  shows "parseKnativeStatus fmtv obj = (False, ''<nil>'', url) \<and>
         fst (snd (parseKnativeStatus fmtv obj)) \<noteq> []"
proof -
  from assms(3) obtain cond where c: "c = JMap cond"
    by (cases c) simp_all
  with assms(5) have "index cond ''message'' = JNull"
    by (simp add: index_def)
  with c have msg: "Sprintf_v fmtv (case c of JMap cond \<Rightarrow> index cond ''message'' | _ \<Rightarrow> JNull) = ''<nil>''"
    by (simp add: Sprintf_v_def)
  have "parseKnativeStatus fmtv obj = scanConditions fmtv url (pre @ c # post)"
    using assms(1) by (rule parseKnativeStatus_scan)
  also have "\<dots> = (False, ''<nil>'', url)"
    using scanConditions_first_ready [OF assms(2) assms(3), of fmtv url post] assms(4) msg by simp
  finally show ?thesis by simp
qed

theorem parseKnativeStatus_missing_message_witness:
  "parseKnativeStatus (opaque :: nat json \<Rightarrow> string)
     [(''status'', JMap
        [(''url'', JString ''http://x''),
         (''conditions'', JSlice
            [JMap [(''type'', JString ''RoutesReady''), (''status'', JString ''True'')],
             JMap [(''type'', JString ''Ready''), (''status'', JString ''Unknown'')]])])]
   = (False, ''<nil>'', ''http://x'' :: string)"
proof -
  let ?pre = "[JMap [(''type'', JString ''RoutesReady''), (''status'', JString ''True'')]] :: nat json list"
  let ?c = "JMap [(''type'', JString ''Ready''), (''status'', JString ''Unknown'')] :: nat json"
  let ?status = "[(''url'', JString ''http://x''), (''conditions'', JSlice (?pre @ ?c # []))]"
  have doc: "statusDocument [(''status'', JMap ?status)] ?status ''http://x'' (?pre @ ?c # [])"
    by (simp add: statusDocument_def NestedString_def stringOrEmpty_def)
  have pre: "\<forall>x \<in> set ?pre. \<not> isReadyCondition x"
    by (simp add: index_def)
  have c: "isReadyCondition ?c" "\<not> hasStatusTrue ?c" "\<not> hasMessage ?c"
    by (simp_all add: index_def)
  show ?thesis
    using parseKnativeStatus_missing_message [OF doc pre c, of opaque] by simp
qed


section \<open>Properties of the Status Reconciler\<close>

lemma observe_decides:
  assumes "getService w namespace name = Inr ksObj"
    and "parseKnativeStatus fmtv ksObj = (isReady, msg, url)"
    and "getFunction w namespace name = Inr kfObj"
    and "d = decide isReady msg url (currentState kfObj) (currentURL kfObj)"
  shows "snd (observe fmtv w namespace name decide) =
     [NewClient, GetService namespace name, GetFunction namespace name] @
     (if needsUpdate d then [PatchStatus namespace name (marshalled (specPatch d url))] else [])"
  using assms by (simp add: observe_def Let_def split: option.splits)


lemma coerceFrom_valid:
  "validFrom k s \<Longrightarrow> coerceFrom k s = s"
  by (induction k s rule: coerceFrom.induct) auto

lemma coerceUTF8_valid:
  "ValidString s \<Longrightarrow> coerceUTF8 s = s"
  by (simp add: ValidString_def coerceUTF8_def coerceFrom_valid)

lemma marshalled_specPatch_url:
  "NestedFieldNoCopy (marshalled (specPatch d url)) [''status'', ''url''] =
     Found (JString (coerceUTF8 url))"
  by (simp add: specPatch_def coerceUTF8_def)

lemma specPatch_state:
  "NestedFieldNoCopy (specPatch d url) [''status'', ''state''] = Found (JString (newState d))"
  by (simp add: specPatch_def)

lemma specPatch_detail:
  "NestedFieldNoCopy (specPatch d url) [''status'', ''detail''] =
     (if newDetail d \<noteq> [] then Found (JString (newDetail d)) else Absent)"
  by (simp add: specPatch_def)

text \<open>
  The degrade transition in \<^verbatim>\<open>unnamed/part_000\<close>: the detail is the interpreter's reason
  behind the prefix.
\<close>

lemma reconcile_part000_degrade:
  "reconcile_part000 False msg url ''Ready'' trackedURL =
     \<lparr> needsUpdate = True, newState = ''FunctionDeployed'', newDetail = ''NotReady: '' @ msg \<rparr>"
  by (simp add: reconcile_part000_def)

lemma reconcile_degrade:
  "reconcile basePath False msg url ''Ready'' trackedURL =
     \<lparr> needsUpdate = True, newState = ''FunctionDeployed'',
       newDetail = ''NotReady: '' @ url @ basePath \<rparr>"
  by (simp add: reconcile_def)

text \<open>
  C2 (the code of \<^verbatim>\<open>cmd/main.go\<close> at a failing input): the Service reports Ready = False
  with the message \<^verbatim>\<open>RevisionFailed\<close>, the tracked state is \<^verbatim>\<open>Ready\<close>. One patch to
  \<^verbatim>\<open>FunctionDeployed\<close> is issued, but its detail is \<^verbatim>\<open>NotReady: http://x\<close>, built from the
  url, and the reason is not in it.
\<close>

theorem runObserve_degrade_detail_omits_reason:
  "parseKnativeStatus (opaque :: nat json \<Rightarrow> string)
     [(''status'', JMap
        [(''url'', JString ''http://x''),
         (''conditions'', JSlice
            [JMap [(''type'', JString ''Ready''), (''status'', JString ''False''),
                   (''message'', JString ''RevisionFailed'')]])])]
   = (False, ''RevisionFailed'', ''http://x'') \<and>
   runObserve (opaque :: nat json \<Rightarrow> string) [''knative-deployer'', ''observe'']
     (environment [(''FUNCTION_NAME'', ''f''), (''FUNCTION_NAMESPACE'', ''ns'')])
     (cluster
        [(''status'', JMap
           [(''url'', JString ''http://x''),
            (''conditions'', JSlice
               [JMap [(''type'', JString ''Ready''), (''status'', JString ''False''),
                      (''message'', JString ''RevisionFailed'')]])])]
        [(''status'', JMap [(''state'', JString ''Ready''), (''url'', JString ''http://x'')])]
        [])
   = (None,
      [NewClient, GetService ''ns'' ''f'', GetFunction ''ns'' ''f'',
       PatchStatus ''ns'' ''f''
         (JMap [(''status'', JMap
            [(''state'', JString ''FunctionDeployed''),
             (''url'', JString ''http://x''),
             (''detail'', JString ''NotReady: http://x'')])])])"
  by (simp add: parseKnativeStatus_def NestedMap_def NestedSlice_def NestedString_def
      stringOrEmpty_def mapOrNil_def index_def Sprintf_v_def runObserve_def LoadEnv_def
      readEnv_def Getenv_def environment_def cluster_def getDynamicClient_def observe_def
      currentState_def currentURL_def reconcile_def specPatch_def coerceUTF8_def)




text \<open>
  C4: a pass that decides needsUpdate = true, followed by a pass on the tracked status
  that holds the decided state and the patched url (the live url), against the same
  interpreted status, decides needsUpdate = false; an observe pass over a tracked
  object that reads back the decided state and the live url makes its two reads and
  no patch. This holds for both source files.
\<close>

theorem reconcile_idempotent:
  "(needsUpdate (reconcile basePath isReady msg url state trackedURL) \<longrightarrow>
      \<not> needsUpdate (reconcile basePath isReady msg url
          (newState (reconcile basePath isReady msg url state trackedURL)) url)) \<and>
   (needsUpdate (reconcile_part000 isReady msg url state trackedURL) \<longrightarrow>
      \<not> needsUpdate (reconcile_part000 isReady msg url
          (newState (reconcile_part000 isReady msg url state trackedURL)) url)) \<and>
   (needsUpdate (reconcile basePath isReady msg url state trackedURL) \<and>
    getService w namespace name = Inr ksObj \<and>
    parseKnativeStatus fmtv ksObj = (isReady, msg, url) \<and>
    getFunction w namespace name = Inr kfObj \<and>
    currentState kfObj = newState (reconcile basePath isReady msg url state trackedURL) \<and>
    currentURL kfObj = url \<longrightarrow>
      observe fmtv w namespace name (reconcile basePath) =
        (None, [NewClient, GetService namespace name, GetFunction namespace name])) \<and>
   (needsUpdate (reconcile_part000 isReady msg url state trackedURL) \<and>
    getService w namespace name = Inr ksObj \<and>
    parseKnativeStatus fmtv ksObj = (isReady, msg, url) \<and>
    getFunction w namespace name = Inr kfObj \<and>
    currentState kfObj = newState (reconcile_part000 isReady msg url state trackedURL) \<and>
    currentURL kfObj = url \<longrightarrow>
      observe fmtv w namespace name reconcile_part000 =
        (None, [NewClient, GetService namespace name, GetFunction namespace name]))"
proof -
  have a: "needsUpdate (reconcile basePath isReady msg url state trackedURL) \<longrightarrow>
      \<not> needsUpdate (reconcile basePath isReady msg url
          (newState (reconcile basePath isReady msg url state trackedURL)) url)"
    by (auto simp add: reconcile_def Let_def)
  have b: "needsUpdate (reconcile_part000 isReady msg url state trackedURL) \<longrightarrow>
      \<not> needsUpdate (reconcile_part000 isReady msg url
          (newState (reconcile_part000 isReady msg url state trackedURL)) url)"
    by (auto simp add: reconcile_part000_def Let_def)
  show ?thesis
  proof (intro conjI impI)
    assume "needsUpdate (reconcile basePath isReady msg url state trackedURL) \<and>
      getService w namespace name = Inr ksObj \<and>
      parseKnativeStatus fmtv ksObj = (isReady, msg, url) \<and>
      getFunction w namespace name = Inr kfObj \<and>
      currentState kfObj = newState (reconcile basePath isReady msg url state trackedURL) \<and>
      currentURL kfObj = url"
    with a show "observe fmtv w namespace name (reconcile basePath) =
        (None, [NewClient, GetService namespace name, GetFunction namespace name])"
      by (simp add: observe_def)
  next
    assume "needsUpdate (reconcile_part000 isReady msg url state trackedURL) \<and>
      getService w namespace name = Inr ksObj \<and>
      parseKnativeStatus fmtv ksObj = (isReady, msg, url) \<and>
      getFunction w namespace name = Inr kfObj \<and>
      currentState kfObj = newState (reconcile_part000 isReady msg url state trackedURL) \<and>
      currentURL kfObj = url"
    with b show "observe fmtv w namespace name reconcile_part000 =
        (None, [NewClient, GetService namespace name, GetFunction namespace name])"
      by (simp add: observe_def)
  qed (use a b in blast)+
qed

theorem reconcile_idempotent_witness:
  "needsUpdate (reconcile ''/api'' False ''No conditions'' ''http://x'' ''Ready'' ''http://x'') \<and>
   \<not> needsUpdate (reconcile ''/api'' False ''No conditions'' ''http://x''
       (newState (reconcile ''/api'' False ''No conditions'' ''http://x'' ''Ready'' ''http://x''))
       ''http://x'') \<and>
   observe (opaque :: nat json \<Rightarrow> string)
     (cluster
        [(''status'', JMap [(''url'', JString ''http://x'')])]
        [(''status'', JMap
           [(''state'', JString ''FunctionDeployed''), (''url'', JString ''http://x''),
            (''detail'', JString ''NotReady: http://x/api'')])]
        [])
     ''ns'' ''f'' (reconcile ''/api'')
   = (None, [NewClient, GetService ''ns'' ''f'', GetFunction ''ns'' ''f''])"
proof -
  let ?ks = "[(''status'', JMap [(''url'', JString ''http://x'')])] :: (string \<times> nat json) list"
  let ?kf = "[(''status'', JMap
           [(''state'', JString ''FunctionDeployed''), (''url'', JString ''http://x''),
            (''detail'', JString ''NotReady: http://x/api'')])] :: (string \<times> nat json) list"
  have d: "reconcile ''/api'' False ''No conditions'' ''http://x'' ''Ready'' ''http://x'' =
     \<lparr> needsUpdate = True, newState = ''FunctionDeployed'', newDetail = ''NotReady: http://x/api'' \<rparr>"
    by (simp add: reconcile_def)
  have h: "needsUpdate (reconcile ''/api'' False ''No conditions'' ''http://x'' ''Ready'' ''http://x'') \<and>
    getService (cluster ?ks ?kf []) ''ns'' ''f'' = Inr ?ks \<and>
    parseKnativeStatus opaque ?ks = (False, ''No conditions'', ''http://x'') \<and>
    getFunction (cluster ?ks ?kf []) ''ns'' ''f'' = Inr ?kf \<and>
    currentState ?kf =
      newState (reconcile ''/api'' False ''No conditions'' ''http://x'' ''Ready'' ''http://x'') \<and>
    currentURL ?kf = ''http://x''"
    unfolding d
    by (simp add: cluster_def parseKnativeStatus_def NestedMap_def NestedSlice_def
        NestedString_def stringOrEmpty_def mapOrNil_def currentState_def currentURL_def)
  show ?thesis
    using h
      reconcile_idempotent [of "''/api''" False "''No conditions''" "''http://x''" "''Ready''"
        "''http://x''" "cluster ?ks ?kf []" "''ns''" "''f''" ?ks opaque ?kf]
    by blast
qed


text \<open>
  C5: with a not-ready interpreted status and a tracked state other than \<^verbatim>\<open>Ready\<close>
  (unset and \<^verbatim>\<open>FunctionDeployed\<close> included), the decision is needsUpdate = false for
  every reason, live url and tracked url, and the observe pass makes its two reads and
  no patch. This holds for both source files.
\<close>

theorem reconcile_no_flap:
  "(state \<noteq> ''Ready'' \<longrightarrow>
      \<not> needsUpdate (reconcile basePath False msg url state trackedURL) \<and>
      \<not> needsUpdate (reconcile_part000 False msg url state trackedURL)) \<and>
   (getService w namespace name = Inr ksObj \<and>
    \<not> fst (parseKnativeStatus fmtv ksObj) \<and>
    getFunction w namespace name = Inr kfObj \<and>
    currentState kfObj \<noteq> ''Ready'' \<longrightarrow>
      observe fmtv w namespace name (reconcile basePath) =
        (None, [NewClient, GetService namespace name, GetFunction namespace name]) \<and>
      observe fmtv w namespace name reconcile_part000 =
        (None, [NewClient, GetService namespace name, GetFunction namespace name]))"
proof (intro conjI impI)
  assume "state \<noteq> ''Ready''"
  then show "\<not> needsUpdate (reconcile basePath False msg url state trackedURL)"
    by (simp add: reconcile_def)
next
  assume "state \<noteq> ''Ready''"
  then show "\<not> needsUpdate (reconcile_part000 False msg url state trackedURL)"
    by (simp add: reconcile_part000_def)
next
  assume a: "getService w namespace name = Inr ksObj \<and>
    \<not> fst (parseKnativeStatus fmtv ksObj) \<and>
    getFunction w namespace name = Inr kfObj \<and>
    currentState kfObj \<noteq> ''Ready''"
  then show "observe fmtv w namespace name (reconcile basePath) =
        (None, [NewClient, GetService namespace name, GetFunction namespace name])"
    by (cases "parseKnativeStatus fmtv ksObj") (simp add: observe_def reconcile_def)
next
  assume a: "getService w namespace name = Inr ksObj \<and>
    \<not> fst (parseKnativeStatus fmtv ksObj) \<and>
    getFunction w namespace name = Inr kfObj \<and>
    currentState kfObj \<noteq> ''Ready''"
  then show "observe fmtv w namespace name reconcile_part000 =
        (None, [NewClient, GetService namespace name, GetFunction namespace name])"
    by (cases "parseKnativeStatus fmtv ksObj") (simp add: observe_def reconcile_part000_def)
qed

theorem reconcile_no_flap_witness:
  "\<not> needsUpdate (reconcile ''/api'' False ''RevisionFailed'' ''http://new'' ''FunctionDeployed'' ''http://old'') \<and>
   \<not> needsUpdate (reconcile_part000 False ''RevisionFailed'' ''http://new'' ''FunctionDeployed'' ''http://old'') \<and>
   observe (opaque :: nat json \<Rightarrow> string)
     (cluster
        [(''status'', JMap [(''url'', JString ''http://new'')])]
        [(''status'', JMap [(''url'', JString ''http://old'')])]
        [])
     ''ns'' ''f'' (reconcile ''/api'')
   = (None, [NewClient, GetService ''ns'' ''f'', GetFunction ''ns'' ''f''])"
proof -
  let ?ks = "[(''status'', JMap [(''url'', JString ''http://new'')])] :: (string \<times> nat json) list"
  let ?kf = "[(''status'', JMap [(''url'', JString ''http://old'')])] :: (string \<times> nat json) list"
  have s: "''FunctionDeployed'' \<noteq> ''Ready''"
    by simp
  have r: "getService (cluster ?ks ?kf []) ''ns'' ''f'' = Inr ?ks \<and>
    \<not> fst (parseKnativeStatus opaque ?ks) \<and>
    getFunction (cluster ?ks ?kf []) ''ns'' ''f'' = Inr ?kf \<and>
    currentState ?kf \<noteq> ''Ready''"
    by (simp add: cluster_def parseKnativeStatus_def NestedMap_def NestedSlice_def
        NestedString_def stringOrEmpty_def mapOrNil_def currentState_def)
  show ?thesis
    using s r
      reconcile_no_flap [of "''FunctionDeployed''" "''/api''" "''RevisionFailed''" "''http://new''"
        "''http://old''" "cluster ?ks ?kf []" "''ns''" "''f''" ?ks opaque ?kf]
    by blast
qed

text \<open>
  The url that the interpreter returns is the string at \<^verbatim>\<open>status.url\<close> of the Service,
  and the empty string when the status block, the field or a string value is missing.
\<close>

lemma scanConditions_url:
  "snd (snd (scanConditions fmtv url conditions)) = url"
  by (induction fmtv url conditions rule: scanConditions.induct) simp_all

lemma parseKnativeStatus_url:
  "snd (snd (parseKnativeStatus fmtv ksObj)) =
     stringOrEmpty (NestedString (mapOrNil (NestedMap ksObj [''status''])) [''url''])"
  by (simp add: parseKnativeStatus_def mapOrNil_def NestedString_def stringOrEmpty_def
      scanConditions_url Let_def split: nested.splits)

lemma live_url_path:
  "stringOrEmpty (NestedString (mapOrNil (NestedMap ksObj [''status''])) [''url'']) =
     (case NestedFieldNoCopy (JMap ksObj) [''status'', ''url''] of
        Found (JString u) \<Rightarrow> u
      | _ \<Rightarrow> [])"
  by (simp add: NestedMap_def NestedString_def mapOrNil_def stringOrEmpty_def
      split: option.splits json.splits nested.splits)

text \<open>
  C9: on the degrade transition the pass issues one patch, and the url of that patch
  is the live url, that is the string at \<^verbatim>\<open>status.url\<close> of the Service that was read,
  as \<^verbatim>\<open>json.Marshal\<close> writes it: the same string when it is valid UTF-8, as the strings
  of a decoded document are. When the Service carries no url string (no status block,
  no url field) the patch sets the url to the empty string, whatever url was tracked
  before. This holds for both source files.
\<close>

theorem observe_degrade_patches_live_url:
  assumes "getService w namespace name = Inr ksObj"
    and "\<not> fst (parseKnativeStatus fmtv ksObj)"
    and "getFunction w namespace name = Inr kfObj"
    and "currentState kfObj = ''Ready''"
  shows "snd (observe fmtv w namespace name (reconcile basePath)) =
           [NewClient, GetService namespace name, GetFunction namespace name,
            PatchStatus namespace name
              (marshalled (specPatch
                 (reconcile basePath False (fst (snd (parseKnativeStatus fmtv ksObj)))
                    (stringOrEmpty (NestedString (mapOrNil (NestedMap ksObj [''status''])) [''url''])) ''Ready'' (currentURL kfObj))
                 (stringOrEmpty (NestedString (mapOrNil (NestedMap ksObj [''status''])) [''url'']))))] \<and>
         snd (observe fmtv w namespace name reconcile_part000) =
           [NewClient, GetService namespace name, GetFunction namespace name,
            PatchStatus namespace name
              (marshalled (specPatch
                 (reconcile_part000 False (fst (snd (parseKnativeStatus fmtv ksObj)))
                    (stringOrEmpty (NestedString (mapOrNil (NestedMap ksObj [''status''])) [''url''])) ''Ready'' (currentURL kfObj))
                 (stringOrEmpty (NestedString (mapOrNil (NestedMap ksObj [''status''])) [''url'']))))] \<and>
         NestedFieldNoCopy (marshalled (specPatch d (stringOrEmpty (NestedString (mapOrNil (NestedMap ksObj [''status''])) [''url'']))) :: 'n json) [''status'', ''url''] =
           Found (JString (coerceUTF8 (stringOrEmpty (NestedString (mapOrNil (NestedMap ksObj [''status''])) [''url''])))) \<and>
         (ValidString (stringOrEmpty (NestedString (mapOrNil (NestedMap ksObj [''status''])) [''url''])) \<longrightarrow>
            NestedFieldNoCopy (marshalled (specPatch d (stringOrEmpty (NestedString (mapOrNil (NestedMap ksObj [''status''])) [''url'']))) :: 'n json) [''status'', ''url''] =
              Found (JString (stringOrEmpty (NestedString (mapOrNil (NestedMap ksObj [''status''])) [''url''])))) \<and>
         (NestedFieldNoCopy (JMap ksObj) [''status'', ''url''] = Found (JString u) \<longrightarrow>
            stringOrEmpty (NestedString (mapOrNil (NestedMap ksObj [''status''])) [''url'']) = u) \<and>
         ((\<forall>u. NestedFieldNoCopy (JMap ksObj) [''status'', ''url''] \<noteq> Found (JString u)) \<longrightarrow>
            NestedFieldNoCopy (marshalled (specPatch d (stringOrEmpty (NestedString (mapOrNil (NestedMap ksObj [''status''])) [''url'']))) :: 'n json) [''status'', ''url''] =
              Found (JString []))"
proof -
  let ?url = "stringOrEmpty (NestedString (mapOrNil (NestedMap ksObj [''status''])) [''url''])"
  let ?msg = "fst (snd (parseKnativeStatus fmtv ksObj))"
  have p: "parseKnativeStatus fmtv ksObj = (False, ?msg, ?url)"
    using assms(2) parseKnativeStatus_url [of fmtv ksObj]
    by (cases "parseKnativeStatus fmtv ksObj") simp
  have m: "NestedFieldNoCopy (marshalled (specPatch d ?url) :: 'n json) [''status'', ''url''] =
      Found (JString (coerceUTF8 ?url))"
    by (rule marshalled_specPatch_url)
  have one: "snd (observe fmtv w namespace name (reconcile basePath)) =
           [NewClient, GetService namespace name, GetFunction namespace name,
            PatchStatus namespace name
              (marshalled (specPatch
                 (reconcile basePath False ?msg ?url ''Ready'' (currentURL kfObj)) ?url))]"
    using observe_decides [OF assms(1) p assms(3) refl, of "reconcile basePath"] assms(4)
    by (simp add: reconcile_degrade)
  have two: "snd (observe fmtv w namespace name reconcile_part000) =
           [NewClient, GetService namespace name, GetFunction namespace name,
            PatchStatus namespace name
              (marshalled (specPatch
                 (reconcile_part000 False ?msg ?url ''Ready'' (currentURL kfObj)) ?url))]"
    using observe_decides [OF assms(1) p assms(3) refl, of reconcile_part000] assms(4)
    by (simp add: reconcile_part000_degrade)
  have valid: "ValidString ?url \<longrightarrow>
      NestedFieldNoCopy (marshalled (specPatch d ?url) :: 'n json) [''status'', ''url''] =
        Found (JString ?url)"
    using m by (simp add: coerceUTF8_valid)
  have present: "NestedFieldNoCopy (JMap ksObj) [''status'', ''url''] = Found (JString u) \<longrightarrow>
      ?url = u"
    by (simp add: live_url_path)
  have "(\<forall>u. NestedFieldNoCopy (JMap ksObj) [''status'', ''url''] \<noteq> Found (JString u)) \<longrightarrow>
      ?url = []"
    unfolding live_url_path by (auto split: nested.splits json.splits)
  then have missing: "(\<forall>u. NestedFieldNoCopy (JMap ksObj) [''status'', ''url''] \<noteq> Found (JString u)) \<longrightarrow>
      NestedFieldNoCopy (marshalled (specPatch d ?url) :: 'n json) [''status'', ''url''] =
        Found (JString [])"
    using m by (auto simp add: coerceUTF8_def)
  from one two m valid present missing show ?thesis
    by blast
qed

theorem observe_degrade_patches_live_url_witness:
  "snd (observe (opaque :: nat json \<Rightarrow> string)
     (cluster []
        [(''status'', JMap [(''state'', JString ''Ready''), (''url'', JString ''http://x'')])]
        [])
     ''ns'' ''f'' (reconcile []))
   = [NewClient, GetService ''ns'' ''f'', GetFunction ''ns'' ''f'',
      PatchStatus ''ns'' ''f''
        (JMap [(''status'', JMap
           [(''state'', JString ''FunctionDeployed''),
            (''url'', JString []),
            (''detail'', JString ''NotReady: '')])])] \<and>
   snd (observe (opaque :: nat json \<Rightarrow> string)
     (cluster
        [(''status'', JMap
           [(''url'', JString ''http://live''),
            (''conditions'', JSlice
               [JMap [(''type'', JString ''Ready''), (''status'', JString ''False''),
                      (''message'', JString ''RevisionFailed'')]])])]
        [(''status'', JMap [(''state'', JString ''Ready''), (''url'', JString ''http://x'')])]
        [])
     ''ns'' ''f'' reconcile_part000)
   = [NewClient, GetService ''ns'' ''f'', GetFunction ''ns'' ''f'',
      PatchStatus ''ns'' ''f''
        (JMap [(''status'', JMap
           [(''state'', JString ''FunctionDeployed''),
            (''url'', JString ''http://live''),
            (''detail'', JString ''NotReady: RevisionFailed'')])])]"
proof -
  let ?kf = "[(''status'', JMap [(''state'', JString ''Ready''), (''url'', JString ''http://x'')])]
    :: (string \<times> nat json) list"
  let ?ks = "[(''status'', JMap
           [(''url'', JString ''http://live''),
            (''conditions'', JSlice
               [JMap [(''type'', JString ''Ready''), (''status'', JString ''False''),
                      (''message'', JString ''RevisionFailed'')]])])] :: (string \<times> nat json) list"
  have a: "getService (cluster [] ?kf []) ''ns'' ''f'' = Inr []"
    and a': "getService (cluster ?ks ?kf []) ''ns'' ''f'' = Inr ?ks"
    by (simp_all add: cluster_def)
  have b: "\<not> fst (parseKnativeStatus (opaque :: nat json \<Rightarrow> string) [])"
    and b': "\<not> fst (parseKnativeStatus (opaque :: nat json \<Rightarrow> string) ?ks)"
    by (simp_all add: parseKnativeStatus_def NestedMap_def NestedSlice_def NestedString_def
        stringOrEmpty_def index_def)
  have c: "getFunction (cluster [] ?kf []) ''ns'' ''f'' = Inr ?kf"
    and c': "getFunction (cluster ?ks ?kf []) ''ns'' ''f'' = Inr ?kf"
    by (simp_all add: cluster_def)
  have d: "currentState ?kf = ''Ready''"
    by (simp add: currentState_def NestedMap_def NestedString_def mapOrNil_def stringOrEmpty_def)
  have e: "fst (snd (parseKnativeStatus (opaque :: nat json \<Rightarrow> string) ?ks)) = ''RevisionFailed''"
    by (simp add: parseKnativeStatus_def NestedMap_def NestedSlice_def NestedString_def
        stringOrEmpty_def index_def Sprintf_v_def)
  show ?thesis
    using observe_degrade_patches_live_url [OF a b c d, of "[]"]
      observe_degrade_patches_live_url [OF a' b' c' d]
    by (simp add: e reconcile_degrade reconcile_part000_degrade specPatch_def coerceUTF8_def
        NestedMap_def NestedString_def mapOrNil_def stringOrEmpty_def)
qed


section \<open>Properties of the Readiness Poller\<close>






section \<open>Properties of the Desired-State Builder\<close>

lemma coerceUTF8_ascii:
  "\<forall>c \<in> set s. (of_char c :: nat) < 128 \<Longrightarrow> coerceUTF8 s = s"
  unfolding coerceUTF8_def by (induction s) auto

lemma marshalled_setKnobs:
  assumes "distinct (map fst kvs)" and "\<forall>k \<in> fst ` set kvs. coerceUTF8 k = k"
  shows "map_of (map (\<lambda>(k, v). (coerceUTF8 k, marshalled v)) (stringMap (setKnobs kvs))) key =
     (case map_of kvs key of
        None \<Rightarrow> None
      | Some v \<Rightarrow> if v = [] then None else Some (JString (coerceUTF8 v) :: 'n json))"
  using assms
proof (induction kvs rule: setKnobs.induct)
  case 1
  then show ?case by simp
next
  case (2 k v rest)
  from "2.prems" have "k \<notin> fst ` set rest"
    by simp
  then have absent: "map_of rest k = None"
    by (simp add: map_of_eq_None_iff)
  from 2 show ?case
    by (auto simp: absent)
qed

lemma scalingKnobs_keys:
  "distinct (map fst (scalingKnobs cfg))"
  "\<forall>k \<in> fst ` set (scalingKnobs cfg). coerceUTF8 k = k"
  by (simp_all add: scalingKnobs_def coerceUTF8_ascii)

text \<open>
  What the applied Service of \<^verbatim>\<open>cmd/main.go\<close> holds under a key of
  \<^verbatim>\<open>metadata.annotations\<close>, in terms of the knob of that key.
\<close>

lemma service_annotation:
  "NestedFieldNoCopy (marshalled (JMap (service env cfg)) :: 'n json)
     [''metadata'', ''annotations'', key] =
     (case map_of (scalingKnobs cfg) key of
        None \<Rightarrow> Absent
      | Some v \<Rightarrow> if v = [] then Absent else Found (JString (coerceUTF8 v)))"
proof -
  have "NestedFieldNoCopy (marshalled (JMap (service env cfg)) :: 'n json)
      [''metadata'', ''annotations'', key] =
      (case map_of (map (\<lambda>(k, v). (coerceUTF8 k, marshalled v))
                (stringMap (setKnobs (scalingKnobs cfg)) :: (string \<times> 'n json) list)) key of
         None \<Rightarrow> Absent
       | Some v \<Rightarrow> Found v)"
    by (simp add: service_def annotations_def coerceUTF8_ascii split: option.splits)
  then show ?thesis
    by (simp add: marshalled_setKnobs [OF scalingKnobs_keys] split: option.splits)
qed

text \<open>
  Forwarded variables: names are trimmed of white space, Unicode white space included,
  blank names are skipped and the order is kept.
\<close>

lemma containerEnv_forwarded:
  "containerEnv (environment [(''A'', ''1''), (''B'', ''2'')]) ''A, ,B'' =
     [JMap [(''name'', JString ''A''), (''value'', JString ''1'')],
      JMap [(''name'', JString ''B''), (''value'', JString ''2'')]]"
  by (simp add: containerEnv_def TrimSpace_def spaceEncodings_def matchLen_def Getenv_def
      environment_def)

lemma TrimSpace_unicode:
  "TrimSpace ([CHR 0xC2, CHR 0xA0] @ ''A B'' @ [CHR 0xE2, CHR 0x80, CHR 0x83, CHR 0x09]) = ''A B''"
  by (simp add: TrimSpace_def spaceEncodings_def matchLen_def)


text \<open>
  C7 (as stated in the specification, refuted): in \<^verbatim>\<open>unnamed/part_000\<close> the configuration
  has no minimum scale at all, and the applied Service still carries the annotation
  \<^verbatim>\<open>autoscaling.knative.dev/minScale\<close> with the locally chosen value \<^verbatim>\<open>0\<close>.
\<close>

theorem service_part000_default_counterexample:
  "Getenv (environment [(''FUNCTION_NAME'', ''f''), (''FUNCTION_NAMESPACE'', ''ns''),
      (''FUNCTION_IMAGE'', ''img'')]) ''SCALING_MIN_SCALE'' = [] \<and>
   NestedFieldNoCopy
     (JMap (service_part000
        (environment [(''FUNCTION_NAME'', ''f''), (''FUNCTION_NAMESPACE'', ''ns''),
           (''FUNCTION_IMAGE'', ''img'')])
        (readEnv_part000
           (environment [(''FUNCTION_NAME'', ''f''), (''FUNCTION_NAMESPACE'', ''ns''),
              (''FUNCTION_IMAGE'', ''img'')]))) :: nat json)
     [''spec'', ''template'', ''metadata'', ''annotations'', ''autoscaling.knative.dev/minScale'']
   = Found (JString ''0'') \<and>
   NestedFieldNoCopy
     (marshalled (JMap (service_part000
        (environment [(''FUNCTION_NAME'', ''f''), (''FUNCTION_NAMESPACE'', ''ns''),
           (''FUNCTION_IMAGE'', ''img'')])
        (readEnv_part000
           (environment [(''FUNCTION_NAME'', ''f''), (''FUNCTION_NAMESPACE'', ''ns''),
              (''FUNCTION_IMAGE'', ''img'')])))) :: nat json)
     [''spec'', ''template'', ''metadata'', ''annotations'', ''autoscaling.knative.dev/minScale'']
   = Found (JString ''0'')"
  by (simp add: service_part000_def environment_def Getenv_def coerceUTF8_ascii)

text \<open>
  C7 (amended): in \<^verbatim>\<open>cmd/main.go\<close>, for every configuration, the Service that is applied
  holds under \<^verbatim>\<open>metadata.annotations\<close> the key of a scaling knob exactly when the knob's
  value is not the empty string, and then with that value as \<^verbatim>\<open>json.Marshal\<close> writes it:
  unchanged when it is valid UTF-8, every other byte replaced by U+FFFD. A knob with an
  empty value has no annotation, no other key is annotated, and the revision template
  has no annotations; this Service is the second effect of every deploy run that
  builds its client. In \<^verbatim>\<open>unnamed/part_000\<close> there are no scaling knobs: the Service has
  no annotations of its own and the revision template always has the one annotation
  \<^verbatim>\<open>minScale = 0\<close>.
\<close>

theorem service_annotations:
  "NestedFieldNoCopy (marshalled (JMap (service env cfg)) :: 'n json)
     [''metadata'', ''annotations'', ''autoscaling.knative.dev/activation-scale''] =
     (if ScalingActivationScale cfg = [] then Absent
      else Found (JString (coerceUTF8 (ScalingActivationScale cfg)))) \<and>
   NestedFieldNoCopy (marshalled (JMap (service env cfg)) :: 'n json)
     [''metadata'', ''annotations'', ''autoscaling.knative.dev/initial-scale''] =
     (if ScalingInitialScale cfg = [] then Absent
      else Found (JString (coerceUTF8 (ScalingInitialScale cfg)))) \<and>
   NestedFieldNoCopy (marshalled (JMap (service env cfg)) :: 'n json)
     [''metadata'', ''annotations'', ''autoscaling.knative.dev/max-scale''] =
     (if ScalingMaxScale cfg = [] then Absent
      else Found (JString (coerceUTF8 (ScalingMaxScale cfg)))) \<and>
   NestedFieldNoCopy (marshalled (JMap (service env cfg)) :: 'n json)
     [''metadata'', ''annotations'', ''autoscaling.knative.dev/metric''] =
     (if ScalingMetric cfg = [] then Absent
      else Found (JString (coerceUTF8 (ScalingMetric cfg)))) \<and>
   NestedFieldNoCopy (marshalled (JMap (service env cfg)) :: 'n json)
     [''metadata'', ''annotations'', ''autoscaling.knative.dev/min-scale''] =
     (if ScalingMinScale cfg = [] then Absent
      else Found (JString (coerceUTF8 (ScalingMinScale cfg)))) \<and>
   NestedFieldNoCopy (marshalled (JMap (service env cfg)) :: 'n json)
     [''metadata'', ''annotations'', ''autoscaling.knative.dev/panic-threshold-percentage''] =
     (if ScalingPanicThresholdPercentage cfg = [] then Absent
      else Found (JString (coerceUTF8 (ScalingPanicThresholdPercentage cfg)))) \<and>
   NestedFieldNoCopy (marshalled (JMap (service env cfg)) :: 'n json)
     [''metadata'', ''annotations'', ''autoscaling.knative.dev/panic-window-percentage''] =
     (if ScalingPanicWindowPercentage cfg = [] then Absent
      else Found (JString (coerceUTF8 (ScalingPanicWindowPercentage cfg)))) \<and>
   NestedFieldNoCopy (marshalled (JMap (service env cfg)) :: 'n json)
     [''metadata'', ''annotations'', ''autoscaling.knative.dev/scale-down-delay''] =
     (if ScalingScaleDownDelay cfg = [] then Absent
      else Found (JString (coerceUTF8 (ScalingScaleDownDelay cfg)))) \<and>
   NestedFieldNoCopy (marshalled (JMap (service env cfg)) :: 'n json)
     [''metadata'', ''annotations'', ''autoscaling.knative.dev/scale-to-zero-pod-retention-period''] =
     (if ScalingScaleToZeroPodRetentionPeriod cfg = [] then Absent
      else Found (JString (coerceUTF8 (ScalingScaleToZeroPodRetentionPeriod cfg)))) \<and>
   NestedFieldNoCopy (marshalled (JMap (service env cfg)) :: 'n json)
     [''metadata'', ''annotations'', ''autoscaling.knative.dev/target''] =
     (if ScalingTarget cfg = [] then Absent
      else Found (JString (coerceUTF8 (ScalingTarget cfg)))) \<and>
   NestedFieldNoCopy (marshalled (JMap (service env cfg)) :: 'n json)
     [''metadata'', ''annotations'', ''autoscaling.knative.dev/target-utilization-percentage''] =
     (if ScalingTargetUtilizationPercentage cfg = [] then Absent
      else Found (JString (coerceUTF8 (ScalingTargetUtilizationPercentage cfg)))) \<and>
   NestedFieldNoCopy (marshalled (JMap (service env cfg)) :: 'n json)
     [''metadata'', ''annotations'', ''autoscaling.knative.dev/window''] =
     (if ScalingStableWindow cfg = [] then Absent
      else Found (JString (coerceUTF8 (ScalingStableWindow cfg)))) \<and>
   (key \<notin>
       {''autoscaling.knative.dev/activation-scale'',
        ''autoscaling.knative.dev/initial-scale'',
        ''autoscaling.knative.dev/max-scale'',
        ''autoscaling.knative.dev/metric'',
        ''autoscaling.knative.dev/min-scale'',
        ''autoscaling.knative.dev/panic-threshold-percentage'',
        ''autoscaling.knative.dev/panic-window-percentage'',
        ''autoscaling.knative.dev/scale-down-delay'',
        ''autoscaling.knative.dev/scale-to-zero-pod-retention-period'',
        ''autoscaling.knative.dev/target'',
        ''autoscaling.knative.dev/target-utilization-percentage'',
        ''autoscaling.knative.dev/window''} \<longrightarrow>
      NestedFieldNoCopy (marshalled (JMap (service env cfg)) :: 'n json)
        [''metadata'', ''annotations'', key] = Absent) \<and>
   ((key, v) \<in> set (scalingKnobs cfg) \<and> v \<noteq> [] \<and> ValidString v \<longrightarrow>
      NestedFieldNoCopy (marshalled (JMap (service env cfg)) :: 'n json)
        [''metadata'', ''annotations'', key] = Found (JString v)) \<and>
   NestedFieldNoCopy (marshalled (JMap (service env cfg)) :: 'n json)
     [''spec'', ''template'', ''metadata'', ''annotations''] = Absent \<and>
   (LoadEnv args env = Inr cfg \<and> getDynamicClient w = None \<and>
    runDeploy fmtv args env w = Some (err, fx) \<longrightarrow>
      take 2 fx =
        [NewClient,
         ApplyService (FunctionNamespace cfg) (FunctionName cfg)
           (marshalled (JMap (service env cfg)))]) \<and>
   NestedFieldNoCopy (marshalled (JMap (service_part000 env cfg0)) :: 'n json)
     [''metadata'', ''annotations''] = Absent \<and>
   NestedFieldNoCopy (marshalled (JMap (service_part000 env cfg0)) :: 'n json)
     [''spec'', ''template'', ''metadata'', ''annotations''] =
     Found (JMap [(''autoscaling.knative.dev/minScale'', JString ''0'')])"
proof -
  have others: "key \<notin>
       {''autoscaling.knative.dev/activation-scale'',
        ''autoscaling.knative.dev/initial-scale'',
        ''autoscaling.knative.dev/max-scale'',
        ''autoscaling.knative.dev/metric'',
        ''autoscaling.knative.dev/min-scale'',
        ''autoscaling.knative.dev/panic-threshold-percentage'',
        ''autoscaling.knative.dev/panic-window-percentage'',
        ''autoscaling.knative.dev/scale-down-delay'',
        ''autoscaling.knative.dev/scale-to-zero-pod-retention-period'',
        ''autoscaling.knative.dev/target'',
        ''autoscaling.knative.dev/target-utilization-percentage'',
        ''autoscaling.knative.dev/window''} \<longrightarrow>
      NestedFieldNoCopy (marshalled (JMap (service env cfg)) :: 'n json)
        [''metadata'', ''annotations'', key] = Absent"
    unfolding service_annotation by (simp add: scalingKnobs_def)
  have valid: "(key, v) \<in> set (scalingKnobs cfg) \<and> v \<noteq> [] \<and> ValidString v \<longrightarrow>
      NestedFieldNoCopy (marshalled (JMap (service env cfg)) :: 'n json)
        [''metadata'', ''annotations'', key] = Found (JString v)"
    unfolding service_annotation
    using scalingKnobs_keys(1) [of cfg] by (auto simp add: coerceUTF8_valid)
  have template: "NestedFieldNoCopy (marshalled (JMap (service env cfg)) :: 'n json)
     [''spec'', ''template'', ''metadata'', ''annotations''] = Absent"
    by (simp add: service_def coerceUTF8_ascii)
  have run: "LoadEnv args env = Inr cfg \<and> getDynamicClient w = None \<and>
    runDeploy fmtv args env w = Some (err, fx) \<longrightarrow>
      take 2 fx =
        [NewClient,
         ApplyService (FunctionNamespace cfg) (FunctionName cfg)
           (marshalled (JMap (service env cfg)))]"
    by (auto simp add: runDeploy_def applyAndWait_def writeTerminationMessage_def Let_def
        split: option.splits sum.splits)
  have p1: "NestedFieldNoCopy (marshalled (JMap (service_part000 env cfg0)) :: 'n json)
     [''metadata'', ''annotations''] = Absent"
    by (simp add: service_part000_def coerceUTF8_ascii)
  have p2: "NestedFieldNoCopy (marshalled (JMap (service_part000 env cfg0)) :: 'n json)
     [''spec'', ''template'', ''metadata'', ''annotations''] =
     Found (JMap [(''autoscaling.knative.dev/minScale'', JString ''0'')])"
    by (simp add: service_part000_def coerceUTF8_ascii)
  show ?thesis
    unfolding service_annotation
    using others [unfolded service_annotation] valid [unfolded service_annotation]
      template run p1 p2
    by (simp add: scalingKnobs_def)
qed

theorem service_annotations_witness:
  "NestedFieldNoCopy
     (marshalled (JMap (service (environment [(''FUNCTION_NAME'', ''f''), (''FUNCTION_NAMESPACE'', ''ns''), (''FUNCTION_IMAGE'', ''img''), (''SCALING_MIN_SCALE'', ''2''), (''SCALING_TARGET'', [CHR 0xFF])]) (readEnv (environment [(''FUNCTION_NAME'', ''f''), (''FUNCTION_NAMESPACE'', ''ns''), (''FUNCTION_IMAGE'', ''img''), (''SCALING_MIN_SCALE'', ''2''), (''SCALING_TARGET'', [CHR 0xFF])])))) :: nat json)
     [''metadata'', ''annotations'', ''autoscaling.knative.dev/min-scale''] = Found (JString ''2'') \<and>
   NestedFieldNoCopy
     (marshalled (JMap (service (environment [(''FUNCTION_NAME'', ''f''), (''FUNCTION_NAMESPACE'', ''ns''), (''FUNCTION_IMAGE'', ''img''), (''SCALING_MIN_SCALE'', ''2''), (''SCALING_TARGET'', [CHR 0xFF])]) (readEnv (environment [(''FUNCTION_NAME'', ''f''), (''FUNCTION_NAMESPACE'', ''ns''), (''FUNCTION_IMAGE'', ''img''), (''SCALING_MIN_SCALE'', ''2''), (''SCALING_TARGET'', [CHR 0xFF])])))) :: nat json)
     [''metadata'', ''annotations'', ''autoscaling.knative.dev/max-scale''] = Absent \<and>
   NestedFieldNoCopy
     (marshalled (JMap (service (environment [(''FUNCTION_NAME'', ''f''), (''FUNCTION_NAMESPACE'', ''ns''), (''FUNCTION_IMAGE'', ''img''), (''SCALING_MIN_SCALE'', ''2''), (''SCALING_TARGET'', [CHR 0xFF])]) (readEnv (environment [(''FUNCTION_NAME'', ''f''), (''FUNCTION_NAMESPACE'', ''ns''), (''FUNCTION_IMAGE'', ''img''), (''SCALING_MIN_SCALE'', ''2''), (''SCALING_TARGET'', [CHR 0xFF])])))) :: nat json)
     [''metadata'', ''annotations'', ''autoscaling.knative.dev/target''] =
     Found (JString [CHR 0xEF, CHR 0xBF, CHR 0xBD]) \<and>
   NestedFieldNoCopy
     (marshalled (JMap (service (environment [(''FUNCTION_NAME'', ''f''), (''FUNCTION_NAMESPACE'', ''ns''), (''FUNCTION_IMAGE'', ''img''), (''SCALING_MIN_SCALE'', ''2''), (''SCALING_TARGET'', [CHR 0xFF])]) (readEnv (environment [(''FUNCTION_NAME'', ''f''), (''FUNCTION_NAMESPACE'', ''ns''), (''FUNCTION_IMAGE'', ''img''), (''SCALING_MIN_SCALE'', ''2''), (''SCALING_TARGET'', [CHR 0xFF])])))) :: nat json)
     [''metadata'', ''annotations'', ''autoscaling.knative.dev/minScale''] = Absent \<and>
   take 2 (snd (the (runDeploy (opaque :: nat json \<Rightarrow> string) [''knative-deployer'', ''deploy'']
       (environment [(''FUNCTION_NAME'', ''f''), (''FUNCTION_NAMESPACE'', ''ns''), (''FUNCTION_IMAGE'', ''img''), (''SCALING_MIN_SCALE'', ''2''), (''SCALING_TARGET'', [CHR 0xFF])]) (cluster [] [] [Timeout])))) =
     [NewClient,
      ApplyService ''ns'' ''f'' (marshalled (JMap (service (environment [(''FUNCTION_NAME'', ''f''), (''FUNCTION_NAMESPACE'', ''ns''), (''FUNCTION_IMAGE'', ''img''), (''SCALING_MIN_SCALE'', ''2''), (''SCALING_TARGET'', [CHR 0xFF])]) (readEnv (environment [(''FUNCTION_NAME'', ''f''), (''FUNCTION_NAMESPACE'', ''ns''), (''FUNCTION_IMAGE'', ''img''), (''SCALING_MIN_SCALE'', ''2''), (''SCALING_TARGET'', [CHR 0xFF])])))))]"
proof -
  let ?env = "(environment [(''FUNCTION_NAME'', ''f''), (''FUNCTION_NAMESPACE'', ''ns''), (''FUNCTION_IMAGE'', ''img''), (''SCALING_MIN_SCALE'', ''2''), (''SCALING_TARGET'', [CHR 0xFF])])"
  let ?w = "cluster [] [] [Timeout] :: nat world"
  have k: "''autoscaling.knative.dev/minScale'' \<notin>
       {''autoscaling.knative.dev/activation-scale'',
        ''autoscaling.knative.dev/initial-scale'',
        ''autoscaling.knative.dev/max-scale'',
        ''autoscaling.knative.dev/metric'',
        ''autoscaling.knative.dev/min-scale'',
        ''autoscaling.knative.dev/panic-threshold-percentage'',
        ''autoscaling.knative.dev/panic-window-percentage'',
        ''autoscaling.knative.dev/scale-down-delay'',
        ''autoscaling.knative.dev/scale-to-zero-pod-retention-period'',
        ''autoscaling.knative.dev/target'',
        ''autoscaling.knative.dev/target-utilization-percentage'',
        ''autoscaling.knative.dev/window''}"
    by simp
  have v: "(''autoscaling.knative.dev/min-scale'', ''2'') \<in> set (scalingKnobs (readEnv ?env)) \<and>
      ''2'' \<noteq> [] \<and> ValidString ''2''"
    by (simp add: scalingKnobs_def readEnv_def Getenv_def environment_def ValidString_def)
  have l: "LoadEnv [''knative-deployer'', ''deploy''] ?env = Inr (readEnv ?env)"
    by (simp add: LoadEnv_def readEnv_def Getenv_def environment_def)
  have c: "getDynamicClient ?w = None"
    by (simp add: getDynamicClient_def cluster_def)
  have sel: "applyService ?w = (\<lambda>namespace name doc. None)" "selects ?w = [Timeout]"
    by (simp_all add: cluster_def)
  obtain err fx where r: "runDeploy opaque [''knative-deployer'', ''deploy''] ?env ?w = Some (err, fx)"
    by (simp add: runDeploy_def l c applyAndWait_def sel Let_def)
  have n: "FunctionNamespace (readEnv ?env) = ''ns''" "FunctionName (readEnv ?env) = ''f''"
    "ScalingMinScale (readEnv ?env) = ''2''" "ScalingMaxScale (readEnv ?env) = []"
    "ScalingTarget (readEnv ?env) = [CHR 0xFF]"
    by (simp_all add: readEnv_def Getenv_def environment_def)
  have u: "coerceUTF8 ''2'' = ''2''" "coerceUTF8 [CHR 0xFF] = [CHR 0xEF, CHR 0xBF, CHR 0xBD]"
    by (simp_all add: coerceUTF8_def between_def)
  show ?thesis
    using k v l c r
      service_annotations [of ?env "readEnv ?env" "''autoscaling.knative.dev/minScale''" _
        "[''knative-deployer'', ''deploy'']" ?w opaque err fx, where 'n = nat]
      service_annotations [of ?env "readEnv ?env" "''autoscaling.knative.dev/min-scale''" "''2''"
        "[''knative-deployer'', ''deploy'']" ?w opaque err fx, where 'n = nat]
    by (simp add: n u)
qed


section \<open>Properties of configuration loading\<close>

text \<open>
  With the subcommand \<^verbatim>\<open>deploy\<close> given, the name and the namespace set and no image,
  \<^verbatim>\<open>LoadEnv\<close> fails with the missing-image error and the run makes no call at all.
\<close>

lemma runDeploy_explicit_missing_image:
  assumes "length args > 1" and "args ! 1 = ''deploy''"
    and "Getenv env ''FUNCTION_NAME'' \<noteq> []" and "Getenv env ''FUNCTION_NAMESPACE'' \<noteq> []"
    and "Getenv env ''FUNCTION_IMAGE'' = []"
  shows "LoadEnv args env = Inl (Errorf ''FUNCTION_IMAGE is required for deploy'')"
    and "main fmtv args env w = Some (Some (Errorf ''FUNCTION_IMAGE is required for deploy''), [])"
  using assms by (simp_all add: main_def runDeploy_def LoadEnv_def readEnv_def)

text \<open>
  C8 (the code at a failing input): the program is started with no subcommand, so
  \<^verbatim>\<open>main\<close> runs the deploy operation; the name and the namespace are set and
  \<^verbatim>\<open>FUNCTION_IMAGE\<close> is not. \<^verbatim>\<open>LoadEnv\<close> succeeds with an empty image, the client is
  built and a Service whose container image is the empty string is applied; the run
  fails only later, here on the timeout of the wait loop.
\<close>

theorem main_default_deploy_accepts_missing_image:
  "Getenv (environment [(''FUNCTION_NAME'', ''f''), (''FUNCTION_NAMESPACE'', ''ns'')]) ''FUNCTION_IMAGE'' = [] \<and>
   LoadEnv [''knative-deployer'']
     (environment [(''FUNCTION_NAME'', ''f''), (''FUNCTION_NAMESPACE'', ''ns'')]) =
     Inr (readEnv (environment [(''FUNCTION_NAME'', ''f''), (''FUNCTION_NAMESPACE'', ''ns'')])) \<and>
   FunctionImage (readEnv (environment [(''FUNCTION_NAME'', ''f''), (''FUNCTION_NAMESPACE'', ''ns'')])) = [] \<and>
   main (opaque :: nat json \<Rightarrow> string) [''knative-deployer'']
     (environment [(''FUNCTION_NAME'', ''f''), (''FUNCTION_NAMESPACE'', ''ns'')])
     (cluster [] [] [Timeout]) =
     Some (Some (Wrap ''failed to wait for service readiness''
                  (Errorf ''timeout waiting for service readiness'')),
           [NewClient,
            ApplyService ''ns'' ''f''
              (marshalled
                 (JMap (service (environment [(''FUNCTION_NAME'', ''f''), (''FUNCTION_NAMESPACE'', ''ns'')])
                    (readEnv (environment [(''FUNCTION_NAME'', ''f''), (''FUNCTION_NAMESPACE'', ''ns'')])))))]) \<and>
   NestedFieldNoCopy
     (marshalled
        (JMap (service (environment [(''FUNCTION_NAME'', ''f''), (''FUNCTION_NAMESPACE'', ''ns'')])
           (readEnv (environment [(''FUNCTION_NAME'', ''f''), (''FUNCTION_NAMESPACE'', ''ns'')]))))
      :: nat json)
     [''spec'', ''template'', ''spec'', ''containers''] =
     Found (JSlice [JMap [(''image'', JString []), (''env'', JSlice [])]])"
proof -
  let ?env = "environment [(''FUNCTION_NAME'', ''f''), (''FUNCTION_NAMESPACE'', ''ns'')]"
  have l: "LoadEnv [''knative-deployer''] ?env = Inr (readEnv ?env)"
    by (simp add: LoadEnv_def readEnv_def Getenv_def environment_def)
  have n: "FunctionNamespace (readEnv ?env) = ''ns''" "FunctionName (readEnv ?env) = ''f''"
    "FunctionImage (readEnv ?env) = []" "ForwardedEnvVars (readEnv ?env) = []"
    "Getenv ?env ''FUNCTION_IMAGE'' = []"
    by (simp_all add: readEnv_def Getenv_def environment_def)
  have m: "main (opaque :: nat json \<Rightarrow> string) [''knative-deployer''] ?env (cluster [] [] [Timeout]) =
     Some (Some (Wrap ''failed to wait for service readiness''
                  (Errorf ''timeout waiting for service readiness'')),
           [NewClient, ApplyService ''ns'' ''f'' (marshalled (JMap (service ?env (readEnv ?env))))])"
    by (simp add: main_def runDeploy_def l n getDynamicClient_def cluster_def applyAndWait_def Let_def)
  have d: "NestedFieldNoCopy (marshalled (JMap (service ?env (readEnv ?env))) :: nat json)
     [''spec'', ''template'', ''spec'', ''containers''] =
     Found (JSlice [JMap [(''image'', JString []), (''env'', JSlice [])]])"
    by (simp add: service_def n containerEnv_def coerceUTF8_ascii)
  from l n m d show ?thesis
    by simp
qed

end
